theory Spec2Isabelle
  imports Complex_Main
begin

section \<open>Text\<close>

text \<open>
  A Python \<open>str\<close> is a sequence of Unicode code points, and \<open>len\<close> counts code points.
  A text is therefore a list of code points, each a natural number; \<open>str\<close> turns an ASCII
  literal into such a list.
\<close>

type_synonym pystr = "nat list"

definition str :: "string \<Rightarrow> pystr" where
  "str = map of_char"

definition newline :: nat where
  "newline = 10"

text \<open>\<open>content.split('\n')\<close>: always at least one line, the separators removed.\<close>

fun split_lines :: "pystr \<Rightarrow> pystr list" where
  "split_lines [] = [[]]"
| "split_lines (c # cs) =
     (let ls = split_lines cs
      in if c = newline then [] # ls else (c # hd ls) # tl ls)"

text \<open>\<open>'\n'.join(lines)\<close>.\<close>

fun join_lines :: "pystr list \<Rightarrow> pystr" where
  "join_lines [] = []"
| "join_lines [l] = l"
| "join_lines (l # ls) = l @ newline # join_lines ls"

section \<open>The chunker: \<open>GeminiAPI._chunk_content\<close>\<close>

text \<open>
  The loop over the lines. Its state is the source's: the chunks closed so far, the lines of
  the chunk being filled, and \<open>current_size\<close>. The last equation is the code after the loop.
\<close>

fun chunk_lines :: "nat \<Rightarrow> pystr list \<Rightarrow> pystr list \<Rightarrow> pystr list \<Rightarrow> nat \<Rightarrow> pystr list" where
  "chunk_lines m (line # rest) chunks current_chunk current_size =
     (let line_size = length line + 1
      in if current_size + line_size > m
         then chunk_lines m rest
                (if current_chunk \<noteq> [] then chunks @ [join_lines current_chunk] else chunks)
                [line] line_size
         else chunk_lines m rest chunks (current_chunk @ [line]) (current_size + line_size))"
| "chunk_lines m [] chunks current_chunk current_size =
     (if current_chunk \<noteq> [] then chunks @ [join_lines current_chunk] else chunks)"

definition chunk_content :: "nat \<Rightarrow> pystr \<Rightarrow> pystr list" where
  "chunk_content max_chunk_size content =
     (if length content \<le> max_chunk_size then [content]
      else chunk_lines max_chunk_size (split_lines content) [] [] 0)"

text \<open>
  The loop invariant: \<open>current_size\<close> is one more than the length of the joined current
  chunk, and it exceeds the limit only for a chunk of one line.
\<close>

definition chunk_inv :: "nat \<Rightarrow> pystr list \<Rightarrow> nat \<Rightarrow> bool" where
  "chunk_inv m current_chunk current_size =
     (if current_chunk = [] then current_size = 0
      else current_size = length (join_lines current_chunk) + 1 \<and>
           (current_size \<le> m \<or> length current_chunk = 1))"

definition group_ok :: "nat \<Rightarrow> pystr list \<Rightarrow> bool" where
  "group_ok m g = (g \<noteq> [] \<and> (length (join_lines g) < m \<or> length g = 1))"

section \<open>The world outside the program\<close>

text \<open>
  Modelled from the spec: the document store (Drive and Docs), the text-generation backend and
  the chat webhook are external services, reached through client libraries that are not part
  of the sources. The store is a list of files with the fields the program reads and writes;
  each remote call is logged in a trace, takes some time, and may fail.
\<close>

record content_item =
  end_index :: "int option"
  section_break :: bool

record drive_file =
  file_id :: pystr
  name :: pystr
  mime_type :: pystr
  created_day :: int
  parents :: "pystr list"
  trashed :: bool
  properties :: "pystr \<rightharpoonup> pystr"
  exported :: pystr
  body_content :: "content_item list"
  inserted :: "(int \<times> pystr) list"

text \<open>The three searches the program sends to \<open>files().list\<close>.\<close>

datatype query = MeetRecordingsFolders | DocsInFolder pystr | DocsNamed pystr

datatype payload = TextPayload pystr | ContentPayload pystr

text \<open>
  The requests to the store and to the chat webhook: \<open>FilesGet\<close> carries the file id and the
  requested fields, \<open>FilesUpdate\<close> the file id and the property set, \<open>DocsBatchUpdate\<close> the
  document id, the index and the text of its one \<open>insertText\<close>.
\<close>

datatype request =
    FilesList query
  | FilesGet pystr pystr
  | FilesExport pystr
  | FilesCopy pystr pystr
  | FilesUpdate pystr pystr pystr
  | DocsGet pystr
  | DocsBatchUpdate pystr int pystr
  | ChatPost pystr payload

text \<open>
  What one POST to the text-generation backend can bring: no response at all (the call
  raises), or a status code with a body that is not JSON, has no candidates, has candidates
  of an unexpected shape, or has the text of a first candidate.
\<close>

datatype body = NotJson | NoCandidates | Malformed | Candidate pystr

datatype response = NoResponse | Reply nat body

text \<open>
  The trace: a sleep with its duration in seconds, a POST to the text-generation backend with
  the text sent and the response, or another request with \<open>True\<close> when it succeeded.
\<close>

datatype event = Sleep real | Generate pystr response | Request request bool

datatype error =
    ConnectionError
  | RateLimitExceeded
  | HTTPError nat
  | JSONDecodeError
  | EmptyResponse
  | MalformedResponse
  | IndexError
  | RetryError error

text \<open>The fields of a \<open>GeminiAPI\<close> object that the program reads after construction.\<close>

record gemini_api =
  MAX_CHUNK_SIZE :: nat
  requests_in_minute :: nat
  last_request_time :: real

definition new_gemini_api :: "real \<Rightarrow> gemini_api" where
  "new_gemini_api t = \<lparr>MAX_CHUNK_SIZE = 30000, requests_in_minute = 0, last_request_time = t\<rparr>"

text \<open>
  What the surroundings decide, indexed by the number of remote calls made so far: whether a
  request to the store fails, what the text-generation backend answers to a text, the status
  of a chat POST (\<open>None\<close> when the POST raises), how long the call takes, and the id of a
  new copy. \<open>local_date\<close> is the calendar day of a clock reading (\<open>datetime.now().date()\<close>)
  and \<open>date_text\<close> its \<open>strftime("%Y-%m-%d")\<close>.
\<close>

record env =
  fault :: "nat \<Rightarrow> bool"
  backend :: "nat \<Rightarrow> pystr \<Rightarrow> response"
  chat_status :: "nat \<Rightarrow> nat option"
  latency :: "nat \<Rightarrow> real"
  fresh_id :: "nat \<Rightarrow> pystr"
  local_date :: "real \<Rightarrow> int"
  date_text :: "real \<Rightarrow> pystr"

text \<open>
  The state: the clock (\<open>time.time()\<close>, a real number of seconds; float rounding is not
  modelled), the number of remote calls made, the trace in order of time, the \<open>GeminiAPI\<close>
  object, the store, and the set \<open>processed_titles\<close> of the current run.
\<close>

record world =
  now :: real
  calls :: nat
  trace :: "event list"
  gemini :: gemini_api
  drive :: "drive_file list"
  processed_titles :: "pystr set"

text \<open>\<open>time.sleep(d)\<close>.\<close>

definition sleep :: "real \<Rightarrow> world \<Rightarrow> world" where
  "sleep d w = w\<lparr>now := now w + d, trace := trace w @ [Sleep d]\<rparr>"

text \<open>A remote call happens: it is logged, it takes its time, the call counter moves on.\<close>

definition tick :: "env \<Rightarrow> event \<Rightarrow> world \<Rightarrow> world" where
  "tick env ev w =
     w\<lparr>now := now w + latency env (calls w), calls := Suc (calls w), trace := trace w @ [ev]\<rparr>"

text \<open>
  A request to the store: it succeeds when the store accepts it (the file exists) and no
  fault occurs; otherwise the client library raises.
\<close>

definition call :: "env \<Rightarrow> request \<Rightarrow> bool \<Rightarrow> world \<Rightarrow> bool \<times> world" where
  "call env r accepted w =
     (let ok = accepted \<and> \<not> fault env (calls w) in (ok, tick env (Request r ok) w))"


section \<open>The prompts of the text-generation client\<close>

text \<open>The fixed instruction of \<open>determine_meeting_type\<close>.\<close>

definition classify_instruction :: pystr where
  "classify_instruction =
     str ''\<newline>'' @
     str ''            Classify the meeting into one of these types:\<newline>'' @
     str ''            - Daily Team Meeting (morning, team plans, 30-45min, daily coordination)\<newline>'' @
     str ''            - Investor Meeting\<newline>'' @
     str ''            - Client Meeting\<newline>'' @
     str ''            - HR & Recruitment\<newline>'' @
     str ''            - User Research Meeting\<newline>'' @
     str ''            - Product Development Meeting\<newline>'' @
     str ''            - Other\<newline>'' @
     str ''            \<newline>'' @
     str ''            Return ONLY the category name.\<newline>'' @
     str ''            ''"

text \<open>The instruction of \<open>summarize_transcript\<close> for a transcript of one chunk.\<close>

definition summary_instruction :: pystr where
  "summary_instruction =
     str ''\<newline>'' @
     str ''                Provide a concise summary focusing on:\<newline>'' @
     str ''                - Key discussion points\<newline>'' @
     str ''                - Important decisions made\<newline>'' @
     str ''                - Action items or next steps\<newline>'' @
     str ''                - Project updates\<newline>'' @
     str ''                ''"

text \<open>The instruction for one part of a longer transcript, before and after the part numbers.\<close>

definition part_instruction_head :: pystr where
  "part_instruction_head =
     str ''\<newline>'' @
     str ''                    Summarize part ''"

definition part_instruction_tail :: pystr where
  "part_instruction_tail =
     str '' of the transcript, focusing on:\<newline>'' @
     str ''                    - Key points\<newline>'' @
     str ''                    - Decisions\<newline>'' @
     str ''                    - Action items\<newline>'' @
     str ''                    ''"

text \<open>The head of the prompt that merges the summaries of the parts.\<close>

definition combine_instruction :: pystr where
  "combine_instruction =
     str ''Combine these summary parts into a coherent final summary:\<newline>'' @
     str ''\<newline>''"

text \<open>The instructions of the two chat summaries.\<close>

definition chat_instruction :: pystr where
  "chat_instruction =
     str ''\<newline>'' @
     str ''            Summarize this meeting for a Google Chat message, output should be a ready to go message with styling applied and emojis if needed. Focus on:\<newline>'' @
     str ''            - Key decisions\<newline>'' @
     str ''            - Action items\<newline>'' @
     str ''            - Main discussion points\<newline>'' @
     str ''            - Plans for the day/week (if applicable)\<newline>'' @
     str ''            - Keep it concise and actionable for the team.\<newline>'' @
     str ''            - Seperate to instructions and updates per person referred to in the transcript.\<newline>'' @
     str ''            - Try to keep it concise, but don'' @
     [39] @
     str ''t leave out any key information.\<newline>'' @
     str ''            - Split it into '' @
     [34] @
     str ''Updates'' @
     [34] @
     str '' and '' @
     [34] @
     str ''Action Points'' @
     [34] @
     str '' sections.\<newline>'' @
     str ''            - Actual Unicode emojis (e.g., '' @
     [128077] @
     str '', '' @
     [128293] @
     str '', '' @
     [128204] @
     str '') at the start of each section and for highlights.\<newline>'' @
     str ''            - Bullet points using '' @
     [39] @
     str ''-'' @
     [39] @
     str '' or '' @
     [39, 8226, 39] @
     str '' (not '' @
     [39] @
     str ''*'' @
     [39] @
     str '').\<newline>'' @
     str ''            - Use *bold* for section headers and important points.\<newline>'' @
     str ''            - No Markdown that Google Chat does not support.\<newline>'' @
     str ''            - No :emoji_name: shortcodes, only real emoji characters.\<newline>'' @
     str ''            ''"

definition validation_instruction :: pystr where
  "validation_instruction =
     str ''\<newline>'' @
     str ''            Create a user validation meeting summary for a Google Chat message, output should be a ready to go message with styling applied and emojis if needed, focusing on:\<newline>'' @
     str ''            - User feedback and pain points\<newline>'' @
     str ''            - Features discussed, both existing and new/upcoming\<newline>'' @
     str ''            - User behavior and usage patterns\<newline>'' @
     str ''            - Validation of assumptions\<newline>'' @
     str ''            - Key insights and learnings\<newline>'' @
     str ''            - Next steps and follow-up actions\<newline>'' @
     str ''            \<newline>'' @
     str ''            Format the output with:\<newline>'' @
     str ''            - Clear sections with emojis\<newline>'' @
     str ''            - Highlight critical feedback\<newline>'' @
     str ''            - Highlight development tasks or possible features/methods discussed \<newline>'' @
     str ''            - Include any specific quotes from users\<newline>'' @
     str ''            - Add a '' @
     [34] @
     str ''Next Steps'' @
     [34] @
     str '' section with actionable items\<newline>'' @
     str ''\<newline>'' @
     str ''            - Actual Unicode emojis (e.g., '' @
     [128077] @
     str '', '' @
     [128293] @
     str '', '' @
     [128204] @
     str '') at the start of each section and for highlights.\<newline>'' @
     str ''            - Bullet points using '' @
     [39] @
     str ''-'' @
     [39] @
     str '' or '' @
     [39, 8226, 39] @
     str '' (not '' @
     [39] @
     str ''*'' @
     [39] @
     str '').\<newline>'' @
     str ''            - Use *bold* for section headers and important points.\<newline>'' @
     str ''            - No Markdown that Google Chat does not support.\<newline>'' @
     str ''            - No :emoji_name: shortcodes, only real emoji characters.\<newline>'' @
     str ''            \<newline>'' @
     str ''            Keep it comprehensive, focusing on development areas, and don'' @
     [39] @
     str ''t leave out any key information or important discussions.\<newline>'' @
     str ''            ''"

section \<open>The text-generation client: \<open>GeminiAPI\<close>\<close>

subsection \<open>Python's \<open>str.strip()\<close>, \<open>str(n)\<close> and \<open>sep.join\<close>\<close>

text \<open>The code points for which \<open>str.isspace\<close> holds.\<close>

definition is_space :: "nat \<Rightarrow> bool" where
  "is_space c =
     ((9 \<le> c \<and> c \<le> 13) \<or> (28 \<le> c \<and> c \<le> 32) \<or> c = 133 \<or> c = 160 \<or> c = 5760 \<or>
      (8192 \<le> c \<and> c \<le> 8202) \<or> c = 8232 \<or> c = 8233 \<or> c = 8239 \<or> c = 8287 \<or> c = 12288)"

definition strip :: "pystr \<Rightarrow> pystr" where
  "strip s = rev (dropWhile is_space (rev (dropWhile is_space s)))"

fun decimal :: "nat \<Rightarrow> pystr" where
  "decimal n = (if n < 10 then [48 + n] else decimal (n div 10) @ [48 + n mod 10])"

fun join :: "pystr \<Rightarrow> pystr list \<Rightarrow> pystr" where
  "join sep [] = []"
| "join sep [x] = x"
| "join sep (x # xs) = x @ sep @ join sep xs"

subsection \<open>The rate limiter: \<open>_check_rate_limit\<close>\<close>

definition check_rate_limit :: "world \<Rightarrow> world" where
  "check_rate_limit w =
     (let current_time = now w;
          g = gemini w;
          g1 = (if current_time - last_request_time g \<ge> 60
                then g\<lparr>requests_in_minute := 0, last_request_time := current_time\<rparr>
                else g);
          w1 = (if requests_in_minute g1 \<ge> 55
                then let sleep_time = 60 - (current_time - last_request_time g1)
                     in if sleep_time > 0
                        then let w' = sleep sleep_time w
                             in w'\<lparr>gemini := g1\<lparr>requests_in_minute := 0,
                                                 last_request_time := now w'\<rparr>\<rparr>
                        else w\<lparr>gemini := g1\<rparr>
                else w\<lparr>gemini := g1\<rparr>)
      in w1\<lparr>gemini := (gemini w1)\<lparr>requests_in_minute := requests_in_minute (gemini w1) + 1\<rparr>\<rparr>)"

subsection \<open>The retry decorator\<close>

text \<open>
  Modelled from the spec: \<open>retry\<close>, \<open>stop_after_attempt\<close> and \<open>wait_exponential\<close> belong to
  the tenacity library, which is not part of the sources. A decorated function is called
  again after every exception until the attempt with the number \<open>max_attempts\<close>, whose
  exception is handed on, wrapped in a \<open>RetryError\<close>. Between two attempts the caller sleeps
  \<open>multiplier * 2 ^ (attempt_number - 1)\<close> seconds, kept between \<open>min\<close> and \<open>max\<close>.
\<close>

definition wait_exponential :: "real \<Rightarrow> real \<Rightarrow> real \<Rightarrow> nat \<Rightarrow> real" where
  "wait_exponential multiplier min_wait max_wait attempt_number =
     max (max 0 min_wait) (min (multiplier * 2 ^ (attempt_number - 1)) max_wait)"

function retrying ::
  "nat \<Rightarrow> (nat \<Rightarrow> real) \<Rightarrow> (world \<Rightarrow> (error + 'a) \<times> world) \<Rightarrow> nat \<Rightarrow> world \<Rightarrow> (error + 'a) \<times> world"
where
  "retrying max_attempts wait f attempt_number w =
     (case f w of
        (Inr v, w') \<Rightarrow> (Inr v, w')
      | (Inl e, w') \<Rightarrow>
          if attempt_number \<ge> max_attempts then (Inl (RetryError e), w')
          else retrying max_attempts wait f (Suc attempt_number) (sleep (wait attempt_number) w'))"
  by pat_completeness auto
termination
  by (relation "measure (\<lambda>(max_attempts, wait, f, attempt_number, w). max_attempts - attempt_number)")
     auto

subsection \<open>One remote call: \<open>_generate_with_retry\<close>\<close>

text \<open>
  The body of the decorated function, one attempt. A prompt of more than one chunk is
  replaced by its first chunk before it is sent.
\<close>

definition generate_once :: "env \<Rightarrow> pystr \<Rightarrow> world \<Rightarrow> (error + pystr) \<times> world" where
  "generate_once env prompt w =
     (let w1 = check_rate_limit w;
          chunks = chunk_content (MAX_CHUNK_SIZE (gemini w1)) prompt;
          sent = (if length chunks > 1 then hd chunks else prompt);
          resp = backend env (calls w1) sent;
          w2 = tick env (Generate sent resp) w1
      in case resp of
           NoResponse \<Rightarrow> (Inl ConnectionError, w2)
         | Reply status_code b \<Rightarrow>
             if status_code = 429 then (Inl RateLimitExceeded, sleep 5 w2)
             else if 400 \<le> status_code \<and> status_code < 600 then (Inl (HTTPError status_code), w2)
             else (case b of
                     NotJson \<Rightarrow> (Inl JSONDecodeError, w2)
                   | NoCandidates \<Rightarrow> (Inl EmptyResponse, w2)
                   | Malformed \<Rightarrow> (Inl MalformedResponse, w2)
                   | Candidate t \<Rightarrow> (Inr (strip t), w2)))"

definition generate_with_retry :: "env \<Rightarrow> pystr \<Rightarrow> world \<Rightarrow> (error + pystr) \<times> world" where
  "generate_with_retry env prompt w =
     retrying 3 (wait_exponential 1 4 10) (generate_once env prompt) 1 w"

subsection \<open>\<open>determine_meeting_type\<close>\<close>

definition valid_categories :: "pystr set" where
  "valid_categories =
     {str ''Daily Team Meeting'', str ''Investor Meeting'', str ''Client Meeting'',
      str ''HR & Recruitment'', str ''User Research Meeting'',
      str ''Product Development Meeting'', str ''Other''}"

text \<open>The prompt, from the optional document name and the first chunk of the transcript.\<close>

definition classify_prompt :: "pystr option \<Rightarrow> pystr \<Rightarrow> pystr" where
  "classify_prompt document_name content_chunk =
     (case document_name of
        None \<Rightarrow> classify_instruction
      | Some n \<Rightarrow>
          if n \<noteq> []
          then classify_instruction @ str ''\<newline>\<newline>Document name: '' @ n @ str ''\<newline>''
          else classify_instruction) @
     str ''\<newline>Transcript excerpt:\<newline>'' @ content_chunk"

text \<open>The body of the \<open>try\<close>: \<open>Inl\<close> is an exception on its way to the handler.\<close>

definition determine_meeting_type_try ::
  "env \<Rightarrow> pystr \<Rightarrow> pystr option \<Rightarrow> world \<Rightarrow> (error + pystr) \<times> world" where
  "determine_meeting_type_try env transcript_text document_name w =
     (case chunk_content (MAX_CHUNK_SIZE (gemini w)) transcript_text of
        [] \<Rightarrow> (Inl IndexError, w)
      | content_chunk # _ \<Rightarrow>
          (case generate_with_retry env (classify_prompt document_name content_chunk) w of
             (Inl e, w') \<Rightarrow> (Inl e, w')
           | (Inr result, w') \<Rightarrow>
               (Inr (if result \<in> valid_categories then result else str ''Other''), w')))"

text \<open>The whole function, with its handler: every exception becomes \<open>"Other"\<close>.\<close>

definition determine_meeting_type ::
  "env \<Rightarrow> pystr \<Rightarrow> pystr option \<Rightarrow> world \<Rightarrow> (error + pystr) \<times> world" where
  "determine_meeting_type env transcript_text document_name w =
     (case determine_meeting_type_try env transcript_text document_name w of
        (Inl e, w') \<Rightarrow> (Inr (str ''Other''), w')
      | (Inr label, w') \<Rightarrow> (Inr label, w'))"

subsection \<open>\<open>summarize_transcript\<close>\<close>

definition part_prompt :: "nat \<Rightarrow> nat \<Rightarrow> pystr \<Rightarrow> pystr" where
  "part_prompt i n chunk =
     part_instruction_head @ decimal (i + 1) @ str ''/'' @ decimal n @ part_instruction_tail @
     str ''\<newline>\<newline>Transcript part '' @ decimal (i + 1) @ str '':\<newline>'' @ chunk"

text \<open>
  The loop over the chunks, from chunk number \<open>i\<close> of \<open>n\<close> on; a summary that is the empty text
  is not kept.
\<close>

fun summarize_chunks ::
  "env \<Rightarrow> nat \<Rightarrow> nat \<Rightarrow> pystr list \<Rightarrow> pystr list \<Rightarrow> world \<Rightarrow> (error + pystr list) \<times> world" where
  "summarize_chunks env i n [] summaries w = (Inr summaries, w)"
| "summarize_chunks env i n (chunk # rest) summaries w =
     (case generate_with_retry env (part_prompt i n chunk) w of
        (Inl e, w') \<Rightarrow> (Inl e, w')
      | (Inr summary, w') \<Rightarrow>
          summarize_chunks env (i + 1) n rest
            (if summary \<noteq> [] then summaries @ [summary] else summaries) w')"

definition combined_prompt :: "pystr list \<Rightarrow> pystr" where
  "combined_prompt summaries =
     combine_instruction @
     join (str ''\<newline>\<newline>'')
       (map (\<lambda>(i, summary). str ''Part '' @ decimal (i + 1) @ str '':\<newline>'' @ summary)
          (enumerate 0 summaries))"

definition summarize_transcript_try ::
  "env \<Rightarrow> pystr \<Rightarrow> world \<Rightarrow> (error + pystr option) \<times> world" where
  "summarize_transcript_try env transcript_text w =
     (let chunks = chunk_content (MAX_CHUNK_SIZE (gemini w)) transcript_text
      in if length chunks = 1
         then (case generate_with_retry env
                      (summary_instruction @ str ''\<newline>\<newline>Transcript:\<newline>'' @ hd chunks) w of
                 (Inl e, w') \<Rightarrow> (Inl e, w')
               | (Inr summary, w') \<Rightarrow> (Inr (Some summary), w'))
         else (case summarize_chunks env 0 (length chunks) chunks [] w of
                 (Inl e, w') \<Rightarrow> (Inl e, w')
               | (Inr summaries, w') \<Rightarrow>
                   if summaries \<noteq> []
                   then (case generate_with_retry env (combined_prompt summaries) w' of
                           (Inl e, w'') \<Rightarrow> (Inl e, w'')
                         | (Inr summary, w'') \<Rightarrow> (Inr (Some summary), w''))
                   else (Inr None, w')))"

definition summarize_transcript ::
  "env \<Rightarrow> pystr \<Rightarrow> world \<Rightarrow> (error + pystr option) \<times> world" where
  "summarize_transcript env transcript_text w =
     (case summarize_transcript_try env transcript_text w of
        (Inl e, w') \<Rightarrow> (Inr None, w')
      | (Inr summary, w') \<Rightarrow> (Inr summary, w'))"


subsection \<open>The chat summaries\<close>

definition chat_prompt :: "pystr \<Rightarrow> pystr \<Rightarrow> pystr option \<Rightarrow> pystr" where
  "chat_prompt instruction transcript_text meeting_time =
     (case meeting_time of
        None \<Rightarrow> instruction
      | Some t \<Rightarrow> if t \<noteq> [] then instruction @ str ''\<newline>Meeting time: '' @ t else instruction) @
     str ''\<newline>\<newline>Transcript:\<newline>'' @ transcript_text"

definition generate_chat_summary ::
  "env \<Rightarrow> pystr \<Rightarrow> pystr option \<Rightarrow> world \<Rightarrow> (error + pystr option) \<times> world" where
  "generate_chat_summary env transcript_text meeting_time w =
     (case generate_with_retry env (chat_prompt chat_instruction transcript_text meeting_time) w of
        (Inl e, w') \<Rightarrow> (Inr None, w')
      | (Inr result, w') \<Rightarrow> (Inr (if result \<noteq> [] then Some (strip result) else None), w'))"

definition generate_user_validation_summary ::
  "env \<Rightarrow> pystr \<Rightarrow> pystr option \<Rightarrow> world \<Rightarrow> (error + pystr option) \<times> world" where
  "generate_user_validation_summary env transcript_text meeting_time w =
     (case generate_with_retry env
             (chat_prompt validation_instruction transcript_text meeting_time) w of
        (Inl e, w') \<Rightarrow> (Inr None, w')
      | (Inr result, w') \<Rightarrow> (Inr (if result \<noteq> [] then Some (strip result) else None), w'))"


section \<open>Relations between two states\<close>

text \<open>
  \<open>grows P w w'\<close>: the trace of \<open>w'\<close> is the trace of \<open>w\<close> followed by events that all satisfy
  \<open>P\<close>. \<open>same_store w w'\<close>: the store, the titles of the run and the chunk size are the same.
\<close>

definition grows :: "(event \<Rightarrow> bool) \<Rightarrow> world \<Rightarrow> world \<Rightarrow> bool" where
  "grows P w w' = (\<exists>es. trace w' = trace w @ es \<and> list_all P es)"

definition same_store :: "world \<Rightarrow> world \<Rightarrow> bool" where
  "same_store w w' =
     (drive w' = drive w \<and> processed_titles w' = processed_titles w \<and>
      MAX_CHUNK_SIZE (gemini w') = MAX_CHUNK_SIZE (gemini w))"

fun is_sleep :: "event \<Rightarrow> bool" where
  "is_sleep (Sleep d) = True"
| "is_sleep (Generate t r) = False"
| "is_sleep (Request r ok) = False"

text \<open>An event of a call that sends the text \<open>t\<close> to the text-generation backend, or sleeps.\<close>

fun sends :: "pystr \<Rightarrow> event \<Rightarrow> bool" where
  "sends t (Sleep d) = True"
| "sends t (Generate t' r) = (t' = t)"
| "sends t (Request r ok) = False"

fun is_gemini :: "event \<Rightarrow> bool" where
  "is_gemini (Sleep d) = True"
| "is_gemini (Generate t r) = True"
| "is_gemini (Request r ok) = False"

text \<open>The texts sent to the text-generation backend, in order.\<close>

fun sent_texts :: "event list \<Rightarrow> pystr list" where
  "sent_texts [] = []"
| "sent_texts (Generate t r # es) = t # sent_texts es"
| "sent_texts (e # es) = sent_texts es"


text \<open>
  The kinds of events: sleeping and text generation; reading the store; the insertion of the
  summary; the copy; the search by title and the property updates of the marking; the chat
  POST. \<open>succeeded\<close> is the outcome of a request.
\<close>

datatype kind = Idle | Read | Write | Copy | Mark | Chat








section \<open>The store adapter: \<open>DriveAPI\<close>\<close>

definition PROCESSED_PROPERTY :: pystr where
  "PROCESSED_PROPERTY = str ''meeting_processed''"

definition document_mime :: pystr where
  "document_mime = str ''application/vnd.google-apps.document''"

definition folder_mime :: pystr where
  "folder_mime = str ''application/vnd.google-apps.folder''"

text \<open>
  Modelled from the spec: what the store answers. A search selects files by name, parent,
  type and the trash flag, and comes in pages of 100 files; the search for a title, which
  the source builds from the title with its quotes escaped, is taken to select the documents
  of exactly that name. A request about a file id is accepted when a file has that id.
\<close>

fun matches :: "query \<Rightarrow> drive_file \<Rightarrow> bool" where
  "matches MeetRecordingsFolders f =
     (name f = str ''Meet Recordings'' \<and> mime_type f = folder_mime \<and> \<not> trashed f)"
| "matches (DocsInFolder folder) f =
     (folder \<in> set (parents f) \<and> mime_type f = document_mime \<and> \<not> trashed f)"
| "matches (DocsNamed title) f =
     (name f = title \<and> mime_type f = document_mime \<and> \<not> trashed f)"

definition page_size :: nat where
  "page_size = 100"

definition find_file :: "drive_file list \<Rightarrow> pystr \<Rightarrow> drive_file option" where
  "find_file fs fid = find (\<lambda>f. file_id f = fid) fs"

text \<open>\<open>service.files().get(fileId, fields)\<close>: \<open>None\<close> when the call raises.\<close>

definition files_get :: "env \<Rightarrow> pystr \<Rightarrow> pystr \<Rightarrow> world \<Rightarrow> drive_file option \<times> world" where
  "files_get env fid requested w =
     (case call env (FilesGet fid requested) (find_file (drive w) fid \<noteq> None) w of
        (ok, w') \<Rightarrow> (if ok then find_file (drive w) fid else None, w'))"

text \<open>A successful \<open>files().update\<close> of one property, on the store.\<close>

definition set_property :: "pystr \<Rightarrow> pystr \<Rightarrow> pystr \<Rightarrow> drive_file list \<Rightarrow> drive_file list" where
  "set_property fid k v fs =
     map (\<lambda>f. if file_id f = fid then f\<lparr>properties := (properties f)(k \<mapsto> v)\<rparr> else f) fs"

subsection \<open>\<open>has_been_processed\<close> and \<open>get_new_meet_files\<close>\<close>

definition has_been_processed :: "env \<Rightarrow> pystr \<Rightarrow> world \<Rightarrow> bool \<times> world" where
  "has_been_processed env fid w =
     (case files_get env fid (str ''properties'') w of
        (None, w') \<Rightarrow> (False, w')
      | (Some f, w') \<Rightarrow> (properties f PROCESSED_PROPERTY = Some (str ''true''), w'))"

text \<open>The loop over the files of one page: the ids of those not yet processed.\<close>

fun unprocessed_files :: "env \<Rightarrow> drive_file list \<Rightarrow> world \<Rightarrow> pystr list \<times> world" where
  "unprocessed_files env [] w = ([], w)"
| "unprocessed_files env (f # fs) w =
     (case has_been_processed env (file_id f) w of
        (processed, w1) \<Rightarrow>
          (case unprocessed_files env fs w1 of
             (rest, w2) \<Rightarrow> (if \<not> processed then file_id f # rest else rest, w2)))"

text \<open>
  The loop over the pages of one folder, \<open>remaining\<close> being the files of the pages still to
  come. A page that cannot be fetched ends the loop; the files found before are kept.
\<close>

function list_folder_pages ::
  "env \<Rightarrow> pystr \<Rightarrow> drive_file list \<Rightarrow> world \<Rightarrow> pystr list \<times> world" where
  "list_folder_pages env folder remaining w =
     (case call env (FilesList (DocsInFolder folder)) True w of
        (ok, w1) \<Rightarrow>
          if \<not> ok then ([], w1)
          else (case unprocessed_files env (take page_size remaining) w1 of
                  (found, w2) \<Rightarrow>
                    if drop page_size remaining = [] then (found, w2)
                    else (case list_folder_pages env folder (drop page_size remaining) w2 of
                            (later, w3) \<Rightarrow> (found @ later, w3))))"
  by pat_completeness auto
termination
  by (relation "measure (\<lambda>(env, folder, remaining, w). length remaining)")
     (auto simp: page_size_def)

text \<open>The loop over the folders; a folder that cannot be read is passed over.\<close>

fun scan_folders :: "env \<Rightarrow> drive_file list \<Rightarrow> world \<Rightarrow> pystr list \<times> world" where
  "scan_folders env [] w = ([], w)"
| "scan_folders env (folder # rest) w =
     (case files_get env (file_id folder) (str ''id,name'') w of
        (None, w1) \<Rightarrow> scan_folders env rest w1
      | (Some folder_check, w1) \<Rightarrow>
          (case list_folder_pages env (file_id folder)
                  (filter (matches (DocsInFolder (file_id folder))) (drive w1)) w1 of
             (found, w2) \<Rightarrow>
               (case scan_folders env rest w2 of
                  (later, w3) \<Rightarrow> (found @ later, w3))))"

definition get_new_meet_files :: "env \<Rightarrow> world \<Rightarrow> pystr list \<times> world" where
  "get_new_meet_files env w =
     (case call env (FilesList MeetRecordingsFolders) True w of
        (ok, w1) \<Rightarrow>
          if \<not> ok then ([], w1)
          else (let folders = take page_size (filter (matches MeetRecordingsFolders) (drive w))
                in if folders = [] then ([], w1) else scan_folders env folders w1))"

subsection \<open>\<open>copy_file\<close>\<close>

definition verify_folder_access :: "env \<Rightarrow> pystr \<Rightarrow> world \<Rightarrow> bool \<times> world" where
  "verify_folder_access env folder_id w =
     (case files_get env folder_id (str ''id, name, driveId, capabilities'') w of
        (None, w') \<Rightarrow> (False, w')
      | (Some folder, w') \<Rightarrow> (True, w'))"

text \<open>
  A successful \<open>files().copy\<close> adds a file with a new id, the name of the original and the
  destination as its parent.
\<close>

definition copy_file :: "env \<Rightarrow> pystr \<Rightarrow> pystr \<Rightarrow> world \<Rightarrow> bool \<times> world" where
  "copy_file env fid folder_id w =
     (case verify_folder_access env folder_id w of
        (False, w1) \<Rightarrow> (False, w1)
      | (True, w1) \<Rightarrow>
          (case files_get env fid (str ''name, driveId'') w1 of
             (None, w2) \<Rightarrow> (False, w2)
           | (Some file, w2) \<Rightarrow>
               (case call env (FilesCopy fid folder_id) (find_file (drive w2) fid \<noteq> None) w2 of
                  (False, w3) \<Rightarrow> (False, w3)
                | (True, w3) \<Rightarrow>
                    (True,
                     w3\<lparr>drive := drive w3 @
                          [file\<lparr>file_id := fresh_id env (calls w2), parents := [folder_id],
                                created_day := local_date env (now w3)\<rparr>]\<rparr>))))"

subsection \<open>\<open>mark_all_with_title_as_processed\<close>\<close>

text \<open>The loop over the files of one page; an update that fails is logged and passed over.\<close>

fun mark_files :: "env \<Rightarrow> drive_file list \<Rightarrow> world \<Rightarrow> world" where
  "mark_files env [] w = w"
| "mark_files env (f # fs) w =
     (case call env (FilesUpdate (file_id f) PROCESSED_PROPERTY (str ''true''))
             (find_file (drive w) (file_id f) \<noteq> None) w of
        (ok, w1) \<Rightarrow>
          mark_files env fs
            (if ok
             then w1\<lparr>drive := set_property (file_id f) PROCESSED_PROPERTY (str ''true'') (drive w1)\<rparr>
             else w1))"

text \<open>The loop over the pages; a page that cannot be fetched raises out of the function.\<close>

function mark_pages :: "env \<Rightarrow> pystr \<Rightarrow> drive_file list \<Rightarrow> world \<Rightarrow> (error + unit) \<times> world" where
  "mark_pages env file_title remaining w =
     (case call env (FilesList (DocsNamed file_title)) True w of
        (ok, w1) \<Rightarrow>
          if \<not> ok then (Inl ConnectionError, w1)
          else (let w2 = mark_files env (take page_size remaining) w1
                in if drop page_size remaining = [] then (Inr (), w2)
                   else mark_pages env file_title (drop page_size remaining) w2))"
  by pat_completeness auto
termination
  by (relation "measure (\<lambda>(env, file_title, remaining, w). length remaining)")
     (auto simp: page_size_def)

definition mark_all_with_title_as_processed ::
  "env \<Rightarrow> pystr \<Rightarrow> world \<Rightarrow> (error + unit) \<times> world" where
  "mark_all_with_title_as_processed env file_title w =
     mark_pages env file_title (filter (matches (DocsNamed file_title)) (drive w)) w"


section \<open>The chat sink: \<open>ChatAPI\<close>\<close>

record chat_api =
  webhook_url :: pystr
  platform :: pystr

definition format_message :: "pystr \<Rightarrow> pystr \<Rightarrow> payload" where
  "format_message message platform_name =
     (if platform_name = str ''slack'' then TextPayload message
      else if platform_name = str ''discord'' then ContentPayload message
      else if platform_name = str ''google_chat'' then TextPayload message
      else TextPayload message)"

definition meeting_entry :: "pystr \<times> pystr \<Rightarrow> pystr" where
  "meeting_entry meeting =
     [128221] @ str '' *'' @ fst meeting @ str ''*\<newline>'' @ snd meeting @ str ''\<newline>\<newline>''"

text \<open>
  \<open>send_daily_meeting_summary\<close>, a meeting being its name and its summary. The POST succeeds
  with the status 200; any other status and an exception give \<open>False\<close>.
\<close>

definition send_daily_meeting_summary ::
  "env \<Rightarrow> chat_api \<Rightarrow> (pystr \<times> pystr) list \<Rightarrow> world \<Rightarrow> bool \<times> world" where
  "send_daily_meeting_summary env chat meetings w =
     (if meetings = [] then (True, w)
      else (let message = str ''*Meeting Summary for '' @ date_text env (now w) @ str ''*\<newline>\<newline>'' @
                          concat (map meeting_entry meetings);
                ok = (chat_status env (calls w) = Some 200)
            in (ok, tick env (Request (ChatPost (webhook_url chat)
                                         (format_message message (platform chat))) ok) w)))"

section \<open>The pipeline: \<open>main.py\<close>\<close>

text \<open>The objects \<open>setup_apis\<close> builds from the configuration.\<close>

record config =
  folder_mapping :: "pystr \<rightharpoonup> pystr"
  daily_chat :: chat_api
  validation_chat :: chat_api

subsection \<open>Reading and annotating a document\<close>

definition files_export :: "env \<Rightarrow> pystr \<Rightarrow> world \<Rightarrow> pystr option \<times> world" where
  "files_export env fid w =
     (case call env (FilesExport fid) (find_file (drive w) fid \<noteq> None) w of
        (ok, w') \<Rightarrow> (if ok then map_option exported (find_file (drive w) fid) else None, w'))"

definition docs_get :: "env \<Rightarrow> pystr \<Rightarrow> world \<Rightarrow> content_item list option \<times> world" where
  "docs_get env fid w =
     (case call env (DocsGet fid) (find_file (drive w) fid \<noteq> None) w of
        (ok, w') \<Rightarrow> (if ok then map_option body_content (find_file (drive w) fid) else None, w'))"

text \<open>
  The end index of the last content item that has one and is no section break; 1 when there
  is none.
\<close>

fun last_end_index :: "content_item list \<Rightarrow> int" where
  "last_end_index [] = 1"
| "last_end_index (item # items) =
     (case end_index item of
        Some e \<Rightarrow> if \<not> section_break item then e else last_end_index items
      | None \<Rightarrow> last_end_index items)"

definition docs_batch_update :: "env \<Rightarrow> pystr \<Rightarrow> int \<Rightarrow> pystr \<Rightarrow> world \<Rightarrow> bool \<times> world" where
  "docs_batch_update env fid i text w =
     (case call env (DocsBatchUpdate fid i text) (find_file (drive w) fid \<noteq> None) w of
        (False, w') \<Rightarrow> (False, w')
      | (True, w') \<Rightarrow>
          (True,
           w'\<lparr>drive := map (\<lambda>f. if file_id f = fid then f\<lparr>inserted := inserted f @ [(i, text)]\<rparr>
                                else f) (drive w')\<rparr>))"

text \<open>
  The inner \<open>try\<close> of the pipeline: read the structure of the document and insert the summary
  at its end. \<open>False\<close> when either call raises.
\<close>

definition append_summary :: "env \<Rightarrow> pystr \<Rightarrow> pystr \<Rightarrow> world \<Rightarrow> bool \<times> world" where
  "append_summary env fid summary_text w =
     (case docs_get env fid w of
        (None, w1) \<Rightarrow> (False, w1)
      | (Some content_items, w1) \<Rightarrow>
          docs_batch_update env fid (last_end_index (rev content_items) - 1) summary_text w1)"

subsection \<open>The meeting time in a title\<close>

text \<open>\<open>sep in s\<close> and \<open>s.split(sep)\<close> for a separator that is not empty.\<close>

fun contains :: "pystr \<Rightarrow> pystr \<Rightarrow> bool" where
  "contains sep [] = (sep = [])"
| "contains sep (c # cs) = (take (length sep) (c # cs) = sep \<or> contains sep cs)"

function split_on :: "pystr \<Rightarrow> pystr \<Rightarrow> pystr list" where
  "split_on sep s =
     (if sep = [] then [s]
      else if s = [] then [[]]
      else if take (length sep) s = sep then [] # split_on sep (drop (length sep) s)
      else (let r = split_on sep (tl s) in (hd s # hd r) # tl r))"
  by pat_completeness auto
termination
  by (relation "measure (\<lambda>(sep, s). length s)") auto

text \<open>
  \<open>file_name.split(" - ")[2].split(" ")[0]\<close> inside its \<open>try\<close>: \<open>None\<close> when the title has no
  third part.
\<close>

definition meeting_time_of :: "pystr \<Rightarrow> pystr option" where
  "meeting_time_of file_name =
     (if contains (str '' - '') file_name
      then (case split_on (str '' - '') file_name of
              a # b # time_part # _ \<Rightarrow>
                (case split_on (str '' '') time_part of t # _ \<Rightarrow> Some t | [] \<Rightarrow> None)
            | _ \<Rightarrow> None)
      else None)"

subsection \<open>One file\<close>

text \<open>
  The notifications, after the file has been copied and marked. An exception, which the
  summaries never raise, would leave through the handler of the file.
\<close>

definition notify :: "env \<Rightarrow> config \<Rightarrow> pystr \<Rightarrow> pystr \<Rightarrow> pystr \<Rightarrow> world \<Rightarrow> world" where
  "notify env cfg file_name content meeting_type w =
     (if meeting_type = str ''Daily Team Meeting''
      then (case generate_chat_summary env content (meeting_time_of file_name) w of
              (Inl e, w1) \<Rightarrow> w1
            | (Inr chat_summary, w1) \<Rightarrow>
                (case chat_summary of
                   None \<Rightarrow> w1
                 | Some s \<Rightarrow>
                     if s \<noteq> []
                     then snd (send_daily_meeting_summary env (daily_chat cfg) [(file_name, s)] w1)
                     else w1))
      else if meeting_type \<in> {str ''User Research Meeting'', str ''Product Development Meeting''}
      then (case generate_user_validation_summary env content (meeting_time_of file_name) w of
              (Inl e, w1) \<Rightarrow> w1
            | (Inr validation_summary, w1) \<Rightarrow>
                (case validation_summary of
                   None \<Rightarrow> w1
                 | Some s \<Rightarrow>
                     if s \<noteq> []
                     then snd (send_daily_meeting_summary env (validation_chat cfg)
                                 [(file_name, s)] w1)
                     else w1))
      else w)"

text \<open>Filing: the copy to the folder of the meeting type, the mark, the notifications.\<close>

definition file_document ::
  "env \<Rightarrow> config \<Rightarrow> pystr \<Rightarrow> pystr \<Rightarrow> pystr \<Rightarrow> pystr \<Rightarrow> world \<Rightarrow> world" where
  "file_document env cfg fid file_name content meeting_type w =
     (case folder_mapping cfg meeting_type of
        None \<Rightarrow> w
      | Some destination_folder \<Rightarrow>
          (case copy_file env fid destination_folder w of
             (False, w1) \<Rightarrow> w1
           | (True, w1) \<Rightarrow>
               (case mark_all_with_title_as_processed env file_name w1 of
                  (Inl e, w2) \<Rightarrow> w2
                | (Inr u, w2) \<Rightarrow> notify env cfg file_name content meeting_type w2)))"

definition summary_text :: "pystr \<Rightarrow> pystr" where
  "summary_text doc_summary =
     str ''\<newline>\<newline>=== AI-Generated Summary ===\<newline>'' @ doc_summary @ str ''\<newline>''"

text \<open>A file whose title has just been claimed: export, classify, summarize, annotate, file.\<close>

definition process_document ::
  "env \<Rightarrow> config \<Rightarrow> pystr \<Rightarrow> pystr \<Rightarrow> pystr \<Rightarrow> world \<Rightarrow> world" where
  "process_document env cfg fid file_name mime w =
     (if mime = document_mime
      then (case files_export env fid w of
              (None, w1) \<Rightarrow> w1
            | (Some doc, w1) \<Rightarrow>
                if doc = [] then w1
                else (case determine_meeting_type env doc (Some file_name) w1 of
                        (Inl e, w2) \<Rightarrow> w2
                      | (Inr meeting_type, w2) \<Rightarrow>
                          (case summarize_transcript env doc w2 of
                             (Inl e, w3) \<Rightarrow> w3
                           | (Inr doc_summary, w3) \<Rightarrow>
                               (case doc_summary of
                                  None \<Rightarrow> w3
                                | Some s \<Rightarrow>
                                    if s = [] then w3
                                    else (case append_summary env fid (summary_text s) w3 of
                                            (False, w4) \<Rightarrow> w4
                                          | (True, w4) \<Rightarrow>
                                              file_document env cfg fid file_name doc
                                                meeting_type w4)))))
      else w)"

text \<open>
  The body of the loop over the files, with the handler of the file: an exception ends the
  work on the file and the loop goes on.
\<close>

definition process_file :: "env \<Rightarrow> config \<Rightarrow> int \<Rightarrow> pystr \<Rightarrow> world \<Rightarrow> world" where
  "process_file env cfg today fid w =
     (case files_get env fid (str ''mimeType,name,createdTime'') w of
        (None, w1) \<Rightarrow> w1
      | (Some file_metadata, w1) \<Rightarrow>
          if created_day file_metadata \<noteq> today then w1
          else if name file_metadata \<in> processed_titles w1 then w1
          else process_document env cfg fid (name file_metadata) (mime_type file_metadata)
                 (w1\<lparr>processed_titles := insert (name file_metadata) (processed_titles w1)\<rparr>))"

subsection \<open>\<open>process_meet_files\<close> and the loop over the users\<close>

fun process_files :: "env \<Rightarrow> config \<Rightarrow> int \<Rightarrow> pystr list \<Rightarrow> world \<Rightarrow> world" where
  "process_files env cfg today [] w = w"
| "process_files env cfg today (fid # rest) w =
     process_files env cfg today rest (process_file env cfg today fid w)"

definition process_meet_files :: "env \<Rightarrow> config \<Rightarrow> world \<Rightarrow> world" where
  "process_meet_files env cfg w =
     (case get_new_meet_files env w of
        (new_files, w1) \<Rightarrow>
          if new_files = [] then w1
          else process_files env cfg (local_date env (now w1)) new_files w1)"

text \<open>
  \<open>handle_request\<close>: one set of titles for the whole run, one call of \<open>process_meet_files\<close>
  for each user.
\<close>

fun process_users :: "env \<Rightarrow> config \<Rightarrow> pystr list \<Rightarrow> world \<Rightarrow> world" where
  "process_users env cfg [] w = w"
| "process_users env cfg (user_email # rest) w =
     process_users env cfg rest (process_meet_files env cfg w)"

definition handle_request :: "env \<Rightarrow> config \<Rightarrow> pystr list \<Rightarrow> world \<Rightarrow> world" where
  "handle_request env cfg users w = process_users env cfg users (w\<lparr>processed_titles := {}\<rparr>)"


section \<open>Relations between two drives\<close>






definition evolved :: "drive_file list \<Rightarrow> drive_file list \<Rightarrow> bool" where
  "evolved fs fs' =
     (length fs \<le> length fs' \<and>
      take (length fs) (map (\<lambda>f. (file_id f, name f, mime_type f, trashed f)) fs') =
      map (\<lambda>f. (file_id f, name f, mime_type f, trashed f)) fs)"




section \<open>Example data\<close>

text \<open>
  Surroundings in which no request fails and no call takes time, with the answers of the
  text-generation backend given by the number of the call; and a state with an empty store.
\<close>

definition quiet_env :: "(nat \<Rightarrow> response) \<Rightarrow> env" where
  "quiet_env answers =
     \<lparr>fault = (\<lambda>n. False), backend = (\<lambda>n t. answers n), chat_status = (\<lambda>n. Some 200),
      latency = (\<lambda>n. 0), fresh_id = (\<lambda>n. str ''copy''), local_date = (\<lambda>t. 0),
      date_text = (\<lambda>t. str ''2024-01-01'')\<rparr>"

definition start_world :: "nat \<Rightarrow> nat \<Rightarrow> real \<Rightarrow> real \<Rightarrow> world" where
  "start_world m k t0 t =
     \<lparr>now = t, calls = 0, trace = [],
      gemini = \<lparr>MAX_CHUNK_SIZE = m, requests_in_minute = k, last_request_time = t0\<rparr>,
      drive = [], processed_titles = {}\<rparr>"

text \<open>
  A document and a folder of the store, a configuration that files the daily meetings, a
  state with a given store and given titles, and surroundings in which the requests with the
  given numbers fail.
\<close>

definition example_doc :: "pystr \<Rightarrow> pystr \<Rightarrow> pystr \<Rightarrow> (pystr \<rightharpoonup> pystr) \<Rightarrow> drive_file" where
  "example_doc fid title body props =
     \<lparr>file_id = fid, name = title, mime_type = document_mime, created_day = 0,
      parents = [str ''rec''], trashed = False, properties = props, exported = body,
      body_content = [\<lparr>end_index = Some 7, section_break = False\<rparr>], inserted = []\<rparr>"

definition example_folder :: "pystr \<Rightarrow> pystr \<Rightarrow> drive_file" where
  "example_folder fid title =
     \<lparr>file_id = fid, name = title, mime_type = folder_mime, created_day = 0, parents = [],
      trashed = False, properties = Map.empty, exported = [], body_content = [], inserted = []\<rparr>"

definition example_config :: config where
  "example_config =
     \<lparr>folder_mapping = [str ''Daily Team Meeting'' \<mapsto> str ''dest''],
      daily_chat = \<lparr>webhook_url = str ''https://chat.googleapis.com/daily'',
                    platform = str ''google_chat''\<rparr>,
      validation_chat = \<lparr>webhook_url = str ''https://chat.googleapis.com/validation'',
                         platform = str ''google_chat''\<rparr>\<rparr>"

definition example_world :: "drive_file list \<Rightarrow> pystr set \<Rightarrow> world" where
  "example_world fs titles =
     \<lparr>now = 100, calls = 0, trace = [],
      gemini = \<lparr>MAX_CHUNK_SIZE = 30000, requests_in_minute = 0, last_request_time = 90\<rparr>,
      drive = fs, processed_titles = titles\<rparr>"

definition faulty_env :: "nat list \<Rightarrow> (nat \<Rightarrow> response) \<Rightarrow> env" where
  "faulty_env failing answers = (quiet_env answers)\<lparr>fault := (\<lambda>n. n \<in> set failing)\<rparr>"

text \<open>
  Surroundings whose backend answers every text with the label of the daily meeting, and
  three stores: one document to process; two documents of one title; and a recordings folder
  whose one document is marked as processed.
\<close>

definition daily_env :: "nat list \<Rightarrow> env" where
  "daily_env failing = faulty_env failing (\<lambda>n. Reply 200 (Candidate (str ''Daily Team Meeting'')))"


definition store_two :: "drive_file list" where
  "store_two =
     [example_doc (str ''doc1'') (str ''Standup'') (str ''hello'') Map.empty,
      example_doc (str ''doc2'') (str ''Standup'') (str ''hello'') Map.empty,
      example_folder (str ''dest'') (str ''Filed'')]"


section \<open>Lines\<close>

lemma str_eq_iff: "str a = str b \<longleftrightarrow> a = b"
proof -
  have "inj (of_char :: char \<Rightarrow> nat)" by (rule injI) simp
  then show ?thesis unfolding str_def by (rule inj_map_eq_map)
qed

lemma str_Nil_iff: "str a = [] \<longleftrightarrow> a = []" "[] = str a \<longleftrightarrow> a = []"
  by (auto simp: str_def)

lemma length_str: "length (str a) = length a"
  by (simp add: str_def)

lemma split_lines_not_Nil: "split_lines s \<noteq> []"
  by (induction s) (simp_all add: Let_def)

lemma join_lines_Cons: "ls \<noteq> [] \<Longrightarrow> join_lines (l # ls) = l @ newline # join_lines ls"
  by (cases ls) simp_all

lemma join_split_lines: "join_lines (split_lines s) = s"
proof (induction s)
  case Nil
  show ?case by simp
next
  case (Cons c cs)
  obtain l ls where sp: "split_lines cs = l # ls"
    using split_lines_not_Nil [of cs] by (cases "split_lines cs") auto
  show ?case
  proof (cases "c = newline")
    case True
    with Cons show ?thesis by (simp add: sp)
  next
    case False
    with Cons show ?thesis by (cases ls) (simp_all add: sp)
  qed
qed

lemma join_lines_append:
  "xs \<noteq> [] \<Longrightarrow> ys \<noteq> [] \<Longrightarrow> join_lines (xs @ ys) = join_lines xs @ newline # join_lines ys"
proof (induction xs)
  case Nil
  then show ?case by simp
next
  case (Cons x xs)
  show ?case
  proof (cases "xs = []")
    case True
    with Cons.prems show ?thesis by (simp add: join_lines_Cons)
  next
    case False
    with Cons show ?thesis by (simp add: join_lines_Cons)
  qed
qed

lemma join_lines_snoc:
  "xs \<noteq> [] \<Longrightarrow> join_lines (xs @ [y]) = join_lines xs @ newline # y"
  using join_lines_append [of xs "[y]"] by simp

lemma length_join_lines_snoc:
  "xs \<noteq> [] \<Longrightarrow> length (join_lines (xs @ [y])) = length (join_lines xs) + 1 + length y"
  by (simp add: join_lines_snoc)

lemma newline_in_join_lines:
  "newline \<in> set (join_lines ls) \<longleftrightarrow> (\<exists>l \<in> set ls. newline \<in> set l) \<or> 2 \<le> length ls"
proof (induction ls rule: join_lines.induct)
  case 1
  show ?case by simp
next
  case (2 l)
  show ?case by simp
next
  case (3 l k ks)
  then show ?case by auto
qed

lemma split_lines_no_newline: "l \<in> set (split_lines s) \<Longrightarrow> newline \<notin> set l"
proof (induction s arbitrary: l)
  case Nil
  then show ?case by simp
next
  case (Cons c cs)
  obtain k ks where sp: "split_lines cs = k # ks"
    using split_lines_not_Nil [of cs] by (cases "split_lines cs") auto
  have k: "newline \<notin> set k" and ks: "\<And>x. x \<in> set ks \<Longrightarrow> newline \<notin> set x"
    using Cons.IH sp by auto
  show ?case
  proof (cases "c = newline")
    case True
    with Cons.prems sp k ks show ?thesis by auto
  next
    case False
    with Cons.prems sp k ks show ?thesis by auto
  qed
qed

lemma split_lines_single: "newline \<notin> set s \<Longrightarrow> split_lines s = [s]"
  by (induction s) simp_all

lemma split_lines_length: "2 \<le> length (split_lines s) \<longleftrightarrow> newline \<in> set s"
proof (induction s)
  case Nil
  show ?case by simp
next
  case (Cons c cs)
  obtain k ks where sp: "split_lines cs = k # ks"
    using split_lines_not_Nil [of cs] by (cases "split_lines cs") auto
  with Cons show ?case by (auto simp: Let_def)
qed

section \<open>What the chunker returns\<close>

lemma join_lines_map_concat:
  "[] \<notin> set gs \<Longrightarrow> join_lines (map join_lines gs) = join_lines (concat gs)"
proof (induction gs)
  case Nil
  show ?case by simp
next
  case (Cons g gs)
  show ?case
  proof (cases "gs = []")
    case True
    then show ?thesis by simp
  next
    case False
    from Cons.prems have g: "g \<noteq> []" and gs: "[] \<notin> set gs" by auto
    from False gs have c: "concat gs \<noteq> []" by (cases gs) auto
    have "join_lines (map join_lines (g # gs)) = join_lines g @ newline # join_lines (map join_lines gs)"
      using False by (simp add: join_lines_Cons)
    also have "\<dots> = join_lines g @ newline # join_lines (concat gs)"
      using Cons.IH gs by simp
    also have "\<dots> = join_lines (concat (g # gs))"
      using join_lines_append [OF g c] by simp
    finally show ?thesis .
  qed
qed

lemma chunk_lines_groups:
  "chunk_inv m cur sz \<Longrightarrow>
   \<exists>gs. chunk_lines m ls chunks cur sz = chunks @ map join_lines gs \<and>
        concat gs = cur @ ls \<and> (\<forall>g \<in> set gs. group_ok m g)"
proof (induction ls arbitrary: chunks cur sz)
  case Nil
  show ?case
  proof (cases "cur = []")
    case True
    then show ?thesis by (intro exI [of _ "[]"]) simp
  next
    case False
    with Nil have "group_ok m cur"
      by (auto simp: chunk_inv_def group_ok_def)
    with False show ?thesis by (intro exI [of _ "[cur]"]) simp
  qed
next
  case (Cons line rest)
  show ?case
  proof (cases "sz + (length line + 1) > m")
    case True
    have inv': "chunk_inv m [line] (length line + 1)"
      by (simp add: chunk_inv_def)
    let ?chunks' = "if cur \<noteq> [] then chunks @ [join_lines cur] else chunks"
    from Cons.IH [OF inv', of ?chunks'] obtain gs where
      gs: "chunk_lines m rest ?chunks' [line] (length line + 1) = ?chunks' @ map join_lines gs"
          "concat gs = [line] @ rest" "\<forall>g \<in> set gs. group_ok m g"
      by blast
    have step: "chunk_lines m (line # rest) chunks cur sz =
                chunk_lines m rest ?chunks' [line] (length line + 1)"
      using True by (simp add: Let_def)
    show ?thesis
    proof (cases "cur = []")
      case True
      with gs step show ?thesis by (intro exI [of _ gs]) simp
    next
      case False
      with Cons.prems have "group_ok m cur"
        by (auto simp: chunk_inv_def group_ok_def)
      with False gs step show ?thesis by (intro exI [of _ "cur # gs"]) simp
    qed
  next
    case False
    have inv': "chunk_inv m (cur @ [line]) (sz + (length line + 1))"
    proof (cases "cur = []")
      case True
      with Cons.prems False show ?thesis by (simp add: chunk_inv_def)
    next
      case nonempty: False
      with Cons.prems False show ?thesis
        by (simp add: chunk_inv_def length_join_lines_snoc)
    qed
    from Cons.IH [OF inv', of chunks] obtain gs where
      gs: "chunk_lines m rest chunks (cur @ [line]) (sz + (length line + 1)) =
             chunks @ map join_lines gs"
          "concat gs = (cur @ [line]) @ rest" "\<forall>g \<in> set gs. group_ok m g"
      by blast
    have step: "chunk_lines m (line # rest) chunks cur sz =
                chunk_lines m rest chunks (cur @ [line]) (sz + (length line + 1))"
      using False by (simp add: Let_def)
    from gs step show ?thesis by (intro exI [of _ gs]) simp
  qed
qed

text \<open>
  Every result of the chunker is the list of joined groups of a grouping of the lines of the
  text, in order, with no empty group.
\<close>

lemma chunk_content_groups:
  "\<exists>gs. chunk_content m s = map join_lines gs \<and> concat gs = split_lines s \<and>
        (\<forall>g \<in> set gs. g \<noteq> [] \<and> (length (join_lines g) \<le> m \<or> length g = 1))"
proof (cases "length s \<le> m")
  case True
  then show ?thesis
    by (intro exI [of _ "[split_lines s]"])
       (simp add: chunk_content_def join_split_lines split_lines_not_Nil)
next
  case False
  have "chunk_inv m [] 0" by (simp add: chunk_inv_def)
  from chunk_lines_groups [OF this, of "split_lines s" "[]"] obtain gs where
    gs: "chunk_lines m (split_lines s) [] [] 0 = map join_lines gs"
        "concat gs = split_lines s" "\<forall>g \<in> set gs. group_ok m g"
    by auto
  from gs(3) have "\<forall>g \<in> set gs. g \<noteq> [] \<and> (length (join_lines g) \<le> m \<or> length g = 1)"
    by (auto simp: group_ok_def)
  with gs(1,2) False show ?thesis
    by (intro exI [of _ gs]) (simp add: chunk_content_def)
qed

lemma chunk_content_not_Nil: "chunk_content m s \<noteq> []"
proof -
  obtain gs where gs: "chunk_content m s = map join_lines gs" "concat gs = split_lines s"
    using chunk_content_groups [of m s] by blast
  from gs(2) split_lines_not_Nil [of s] have "gs \<noteq> []" by auto
  with gs(1) show ?thesis by simp
qed

lemma join_chunk_content: "join_lines (chunk_content m s) = s"
proof -
  obtain gs where gs: "chunk_content m s = map join_lines gs" "concat gs = split_lines s"
      "\<forall>g \<in> set gs. g \<noteq> [] \<and> (length (join_lines g) \<le> m \<or> length g = 1)"
    using chunk_content_groups [of m s] by blast
  from gs(3) have "[] \<notin> set gs" by auto
  then have "join_lines (map join_lines gs) = join_lines (concat gs)"
    by (rule join_lines_map_concat)
  with gs(1,2) show ?thesis by (simp add: join_split_lines)
qed

text \<open>
  C4. For every text and every maximum chunk size (positive or not), the chunker returns a
  non-empty list of chunks, also for the empty text, and joining the chunks in order with
  single newlines gives back the text.
\<close>

theorem chunk_content_roundtrip:
  "chunk_content m s \<noteq> [] \<and> join_lines (chunk_content m s) = s \<and> chunk_content m [] = [[]]"
  by (simp add: chunk_content_not_Nil join_chunk_content) (simp add: chunk_content_def)

text \<open>
  C5. Every chunk is at most the limit long, except a chunk that is one single line of the
  text longer than the limit; the chunks are the joined groups of a grouping of the lines of
  the text, so the text is split at newlines only; and a text at or under the limit comes
  back as one chunk equal to the text.
\<close>

theorem chunk_content_bounded:
  "(\<forall>c \<in> set (chunk_content m s).
      length c \<le> m \<or> (c \<in> set (split_lines s) \<and> m < length c)) \<and>
   (\<exists>gs. chunk_content m s = map join_lines gs \<and> concat gs = split_lines s \<and> [] \<notin> set gs) \<and>
   (length s \<le> m \<longrightarrow> chunk_content m s = [s])"
proof -
  obtain gs where gs: "chunk_content m s = map join_lines gs" "concat gs = split_lines s"
      "\<forall>g \<in> set gs. g \<noteq> [] \<and> (length (join_lines g) \<le> m \<or> length g = 1)"
    using chunk_content_groups [of m s] by blast
  have bound: "length c \<le> m \<or> (c \<in> set (split_lines s) \<and> m < length c)"
    if "c \<in> set (chunk_content m s)" for c
  proof -
    from that gs(1) obtain g where g: "g \<in> set gs" "c = join_lines g" by auto
    show ?thesis
    proof (cases "length c \<le> m")
      case True
      then show ?thesis by simp
    next
      case False
      with g gs(3) have "length g = 1" by auto
      then obtain l where l: "g = [l]" by (cases g) auto
      with g(1) have "[l] \<in> set gs" by simp
      then have "l \<in> set (concat gs)" by force
      with gs(2) l g(2) False show ?thesis by simp
    qed
  qed
  from gs(3) have "[] \<notin> set gs" by auto
  with gs(1,2) have "\<exists>gs. chunk_content m s = map join_lines gs \<and> concat gs = split_lines s \<and> [] \<notin> set gs"
    by blast
  moreover have "length s \<le> m \<longrightarrow> chunk_content m s = [s]"
    by (simp add: chunk_content_def)
  ultimately show ?thesis using bound by blast
qed

theorem chunk_content_bounded_witness:
  "chunk_content 5 (str ''ab\<newline>cdefgh\<newline>i'') = [str ''ab'', str ''cdefgh'', str ''i''] \<and>
   length (str ''ab'') \<le> 5 \<and> length (str ''i'') \<le> 5 \<and>
   str ''cdefgh'' \<in> set (split_lines (str ''ab\<newline>cdefgh\<newline>i'')) \<and> 5 < length (str ''cdefgh'') \<and>
   length (str ''abc'') \<le> 5 \<and> chunk_content 5 (str ''abc'') = [str ''abc'']"
  using chunk_content_bounded [of 5 "str ''ab\<newline>cdefgh\<newline>i''"]
    chunk_content_bounded [of 5 "str ''abc''"]
  by (simp add: chunk_content_def str_def newline_def Let_def)

section \<open>Traces\<close>


lemma grows_trans: "grows P w w1 \<Longrightarrow> grows P w1 w2 \<Longrightarrow> grows P w w2"
  by (auto simp: grows_def)

lemma grows_mono: "grows P w w' \<Longrightarrow> (\<And>e. P e \<Longrightarrow> Q e) \<Longrightarrow> grows Q w w'"
  by (auto simp: grows_def list_all_iff)


lemma same_store_trans: "same_store w w1 \<Longrightarrow> same_store w1 w2 \<Longrightarrow> same_store w w2"
  by (simp add: same_store_def)

lemma grows_sleep: "P (Sleep d) \<Longrightarrow> grows P w (sleep d w)"
  by (simp add: grows_def sleep_def)

lemma same_store_sleep: "same_store w (sleep d w)"
  by (simp add: same_store_def sleep_def)

lemma grows_tick: "P ev \<Longrightarrow> grows P w (tick env ev w)"
  by (simp add: grows_def tick_def)

lemma same_store_tick: "same_store w (tick env ev w)"
  by (simp add: same_store_def tick_def)

section \<open>The rate limiter\<close>

lemma grows_check_rate_limit: "grows is_sleep w (check_rate_limit w)"
  by (simp add: grows_def check_rate_limit_def Let_def sleep_def)

lemma same_store_check_rate_limit: "same_store w (check_rate_limit w)"
  by (simp add: same_store_def check_rate_limit_def Let_def sleep_def)

lemma calls_check_rate_limit: "calls (check_rate_limit w) = calls w"
  by (simp add: check_rate_limit_def Let_def sleep_def)

section \<open>One attempt\<close>

lemma hd_chunk_content_single:
  "\<not> 1 < length (chunk_content m p) \<Longrightarrow> hd (chunk_content m p) = p"
proof -
  assume "\<not> 1 < length (chunk_content m p)"
  with chunk_content_not_Nil [of m p] obtain c where c: "chunk_content m p = [c]"
    by (cases "chunk_content m p") auto
  with join_chunk_content [of m p] show ?thesis by simp
qed

text \<open>What one attempt does, by the response of the backend to the text sent.\<close>

lemma generate_once_eq:
  "generate_once env p w =
     (let w1 = check_rate_limit w;
          sent = hd (chunk_content (MAX_CHUNK_SIZE (gemini w)) p);
          resp = backend env (calls w) sent;
          w2 = tick env (Generate sent resp) w1
      in case resp of
           NoResponse \<Rightarrow> (Inl ConnectionError, w2)
         | Reply status_code b \<Rightarrow>
             if status_code = 429 then (Inl RateLimitExceeded, sleep 5 w2)
             else if 400 \<le> status_code \<and> status_code < 600 then (Inl (HTTPError status_code), w2)
             else (case b of
                     NotJson \<Rightarrow> (Inl JSONDecodeError, w2)
                   | NoCandidates \<Rightarrow> (Inl EmptyResponse, w2)
                   | Malformed \<Rightarrow> (Inl MalformedResponse, w2)
                   | Candidate t \<Rightarrow> (Inr (strip t), w2)))"
proof -
  have m: "MAX_CHUNK_SIZE (gemini (check_rate_limit w)) = MAX_CHUNK_SIZE (gemini w)"
    using same_store_check_rate_limit [of w] by (simp add: same_store_def)
  have s: "(if 1 < length (chunk_content (MAX_CHUNK_SIZE (gemini w)) p)
            then hd (chunk_content (MAX_CHUNK_SIZE (gemini w)) p) else p) =
           hd (chunk_content (MAX_CHUNK_SIZE (gemini w)) p)"
    by (simp add: hd_chunk_content_single)
  show ?thesis
    unfolding generate_once_def Let_def m s calls_check_rate_limit ..
qed

lemma grows_generate_once:
  "grows (sends (hd (chunk_content (MAX_CHUNK_SIZE (gemini w)) p))) w (snd (generate_once env p w))"
proof -
  let ?t = "hd (chunk_content (MAX_CHUNK_SIZE (gemini w)) p)"
  have a: "grows (sends ?t) w (check_rate_limit w)"
    by (rule grows_mono [OF grows_check_rate_limit]) (case_tac e, simp_all)
  have b: "grows (sends ?t) (check_rate_limit w) (tick env (Generate ?t r) (check_rate_limit w))" for r
    by (rule grows_tick) simp
  have c: "grows (sends ?t) w (tick env (Generate ?t r) (check_rate_limit w))" for r
    by (rule grows_trans [OF a b])
  have d: "grows (sends ?t) w (sleep 5 (tick env (Generate ?t r) (check_rate_limit w)))" for r
    by (rule grows_trans [OF c]) (rule grows_sleep, simp)
  show ?thesis
    unfolding generate_once_eq Let_def
    by (simp add: c d split: response.split body.split)
qed

lemma same_store_generate_once: "same_store w (snd (generate_once env p w))"
proof -
  have c: "same_store w (tick env ev (check_rate_limit w))" for ev
    by (rule same_store_trans [OF same_store_check_rate_limit same_store_tick])
  have d: "same_store w (sleep 5 (tick env ev (check_rate_limit w)))" for ev
    by (rule same_store_trans [OF c same_store_sleep])
  show ?thesis
    unfolding generate_once_eq Let_def
    by (simp add: c d split: response.split body.split)
qed

section \<open>Retrying\<close>

lemma wait_exponential_bounds:
  "4 \<le> wait_exponential 1 4 10 n \<and> wait_exponential 1 4 10 n \<le> 10"
  by (simp add: wait_exponential_def)

lemma wait_exponential_first: "wait_exponential 1 4 10 1 = 4"
  by (simp add: wait_exponential_def)

lemma wait_exponential_second: "wait_exponential 1 4 10 (Suc 1) = 4"
  by (simp add: wait_exponential_def)

lemma retrying_three:
  "retrying 3 wt f 1 w =
     (case f w of
        (Inr t, w1) \<Rightarrow> (Inr t, w1)
      | (Inl e1, w1) \<Rightarrow>
          (case f (sleep (wt 1) w1) of
             (Inr t, w2) \<Rightarrow> (Inr t, w2)
           | (Inl e2, w2) \<Rightarrow>
               (case f (sleep (wt (Suc 1)) w2) of
                  (Inr t, w3) \<Rightarrow> (Inr t, w3)
                | (Inl e3, w3) \<Rightarrow> (Inl (RetryError e3), w3))))"
  apply (subst retrying.simps)
  apply (subst retrying.simps)
  apply (subst retrying.simps)
  apply (simp split: prod.splits sum.splits)
  done

lemma generate_with_retry_eq:
  "generate_with_retry env p w =
     (case generate_once env p w of
        (Inr t, w1) \<Rightarrow> (Inr t, w1)
      | (Inl e1, w1) \<Rightarrow>
          (case generate_once env p (sleep 4 w1) of
             (Inr t, w2) \<Rightarrow> (Inr t, w2)
           | (Inl e2, w2) \<Rightarrow>
               (case generate_once env p (sleep 4 w2) of
                  (Inr t, w3) \<Rightarrow> (Inr t, w3)
                | (Inl e3, w3) \<Rightarrow> (Inl (RetryError e3), w3))))"
  unfolding generate_with_retry_def retrying_three wait_exponential_first wait_exponential_second ..

lemma retrying_rel:
  assumes s: "\<And>d w. R w (sleep d w)"
    and t: "\<And>a b c. R a b \<Longrightarrow> R b c \<Longrightarrow> R a c"
  shows "(\<And>w. R w (snd (f w))) \<Longrightarrow> R w (snd (retrying n wt f a w))"
proof (induction n wt f a w rule: retrying.induct)
  case (1 n wt f a w)
  obtain r w' where fw: "f w = (r, w')" by (cases "f w")
  have step: "R w w'" using "1.prems" [of w] fw by simp
  show ?case
  proof (cases r)
    case (Inr v)
    with fw step show ?thesis by (subst retrying.simps) simp
  next
    case (Inl e)
    show ?thesis
    proof (cases "n \<le> a")
      case True
      with Inl fw step show ?thesis by (subst retrying.simps) simp
    next
      case False
      have "R (sleep (wt a) w') (snd (retrying n wt f (Suc a) (sleep (wt a) w')))"
        using "1.IH" [OF fw [symmetric] Inl False "1.prems"] .
      then have "R w (snd (retrying n wt f (Suc a) (sleep (wt a) w')))"
        using t [OF step] t [OF s] by blast
      with Inl fw False show ?thesis by (subst retrying.simps) simp
    qed
  qed
qed

lemma grows_generate_with_retry:
  "grows (sends (hd (chunk_content (MAX_CHUNK_SIZE (gemini w)) p))) w
     (snd (generate_with_retry env p w))"
proof -
  let ?m = "MAX_CHUNK_SIZE (gemini w)"
  let ?R = "\<lambda>a b. same_store a b \<and> (MAX_CHUNK_SIZE (gemini a) = ?m \<longrightarrow>
              grows (sends (hd (chunk_content ?m p))) a b)"
  have "?R w (snd (retrying 3 (wait_exponential 1 4 10) (generate_once env p) 1 w))"
  proof (rule retrying_rel [where R = ?R])
    show "?R a (sleep d a)" for d a
      by (simp add: same_store_sleep grows_sleep)
    show "?R a c" if "?R a b" "?R b c" for a b c
      using that by (auto simp: same_store_def intro: grows_trans)
    show "?R a (snd (generate_once env p a))" for a
      using grows_generate_once [of a p env] by (auto simp: same_store_generate_once)
  qed
  then show ?thesis by (simp add: generate_with_retry_def)
qed


text \<open>The attempts of one call: at least one and at most three texts are sent.\<close>

lemma sent_texts_append: "sent_texts (xs @ ys) = sent_texts xs @ sent_texts ys"
  by (induction xs rule: sent_texts.induct) simp_all

lemma sent_texts_sleeps: "list_all is_sleep es \<Longrightarrow> sent_texts es = []"
  by (induction es rule: sent_texts.induct) simp_all

lemma generate_once_sent:
  "\<exists>es. trace (snd (generate_once env p w)) = trace w @ es \<and>
        sent_texts es = [hd (chunk_content (MAX_CHUNK_SIZE (gemini w)) p)]"
proof -
  obtain es where es: "trace (check_rate_limit w) = trace w @ es" "list_all is_sleep es"
    using grows_check_rate_limit [of w] by (auto simp: grows_def)
  have "sent_texts es = []" using es(2) by (rule sent_texts_sleeps)
  then show ?thesis
    unfolding generate_once_eq Let_def
    by (auto simp: es(1) tick_def sleep_def sent_texts_append split: response.split body.split)
qed

lemma generate_with_retry_attempts:
  "\<exists>es. trace (snd (generate_with_retry env p w)) = trace w @ es \<and>
        1 \<le> length (sent_texts es) \<and> length (sent_texts es) \<le> 3"
proof -
  obtain r1 w1 where g1: "generate_once env p w = (r1, w1)" by (cases "generate_once env p w")
  obtain r2 w2 where g2: "generate_once env p (sleep 4 w1) = (r2, w2)"
    by (cases "generate_once env p (sleep 4 w1)")
  obtain r3 w3 where g3: "generate_once env p (sleep 4 w2) = (r3, w3)"
    by (cases "generate_once env p (sleep 4 w2)")
  obtain e1 where e1: "trace w1 = trace w @ e1" "length (sent_texts e1) = 1"
    using generate_once_sent [of env p w] g1 by auto
  obtain e2 where e2: "trace w2 = trace (sleep 4 w1) @ e2" "length (sent_texts e2) = 1"
    using generate_once_sent [of env p "sleep 4 w1"] g2 by auto
  obtain e3 where e3: "trace w3 = trace (sleep 4 w2) @ e3" "length (sent_texts e3) = 1"
    using generate_once_sent [of env p "sleep 4 w2"] g3 by auto
  have t2: "trace w2 = trace w @ (e1 @ Sleep 4 # e2)"
    using e1 e2 by (simp add: sleep_def)
  have t3: "trace w3 = trace w @ (e1 @ Sleep 4 # e2 @ Sleep 4 # e3)"
    using t2 e3 by (simp add: sleep_def)
  have l2: "length (sent_texts (e1 @ Sleep 4 # e2)) = 2"
    using e1 e2 by (simp add: sent_texts_append)
  have l3: "length (sent_texts (e1 @ Sleep 4 # e2 @ Sleep 4 # e3)) = 3"
    using e1 e2 e3 by (simp add: sent_texts_append)
  show ?thesis
  proof (cases r1)
    case (Inr t)
    with g1 e1 show ?thesis by (subst generate_with_retry_eq) (auto intro!: exI [of _ e1])
  next
    case i1: (Inl x1)
    show ?thesis
    proof (cases r2)
      case (Inr t)
      with i1 g1 g2 t2 l2 show ?thesis
        by (subst generate_with_retry_eq) (auto intro!: exI [of _ "e1 @ Sleep 4 # e2"])
    next
      case i2: (Inl x2)
      with i1 g1 g2 g3 t3 l3 show ?thesis
        by (subst generate_with_retry_eq)
           (auto intro!: exI [of _ "e1 @ Sleep 4 # e2 @ Sleep 4 # e3"] split: sum.split)
    qed
  qed
qed

section \<open>The first chunk of a long text\<close>

lemma chunk_content_long:
  assumes "m < length p" and "newline \<in> set p"
  shows "tl (chunk_content m p) \<noteq> [] \<and>
         p = hd (chunk_content m p) @ newline # join_lines (tl (chunk_content m p))"
proof -
  obtain gs where gs: "chunk_content m p = map join_lines gs" "concat gs = split_lines p"
      "\<forall>g \<in> set gs. g \<noteq> [] \<and> (length (join_lines g) \<le> m \<or> length g = 1)"
    using chunk_content_groups [of m p] by blast
  have lines: "2 \<le> length (split_lines p)"
    using assms(2) by (simp add: split_lines_length)
  have "tl gs \<noteq> []"
  proof
    assume "tl gs = []"
    moreover from gs(2) split_lines_not_Nil [of p] have "gs \<noteq> []" by auto
    ultimately obtain g where g: "gs = [g]" by (cases gs) auto
    with gs(2) have "g = split_lines p" by simp
    with g gs(3) lines assms(1) show False by (simp add: join_split_lines)
  qed
  then obtain c cs where c: "chunk_content m p = c # cs" "cs \<noteq> []"
    using gs(1) by (cases gs) auto
  have "p = join_lines (c # cs)"
    using join_chunk_content [of m p] c(1) by simp
  with c show ?thesis by (simp add: join_lines_Cons)
qed

lemma newline_in_transcript_mark: "newline \<in> set (a @ str ''\<newline>\<newline>Transcript:\<newline>'' @ b)"
  by (simp add: str_def newline_def)

lemma newline_in_chat_prompt: "newline \<in> set (chat_prompt i t mt)"
  by (simp add: chat_prompt_def str_def newline_def)

lemma newline_in_part_prompt: "newline \<in> set (part_prompt i n c)"
  by (simp add: part_prompt_def str_def newline_def)

lemma newline_in_combined_prompt: "newline \<in> set (combined_prompt ss)"
  by (simp add: combined_prompt_def combine_instruction_def str_def newline_def)

section \<open>Classification\<close>

lemma chunk_content_short: "length s \<le> m \<Longrightarrow> chunk_content m s = [s]"
  by (simp add: chunk_content_def)

lemma other_valid: "str ''Other'' \<in> valid_categories"
  by (simp add: valid_categories_def)

lemma card_valid_categories: "card valid_categories = 7"
  by (simp add: valid_categories_def str_def)

lemma determine_meeting_type_eq:
  "determine_meeting_type env t n w =
     (case generate_with_retry env
             (classify_prompt n (hd (chunk_content (MAX_CHUNK_SIZE (gemini w)) t))) w of
        (Inl e, w') \<Rightarrow> (Inr (str ''Other''), w')
      | (Inr result, w') \<Rightarrow>
          (Inr (if result \<in> valid_categories then result else str ''Other''), w'))"
proof -
  obtain c cs where c: "chunk_content (MAX_CHUNK_SIZE (gemini w)) t = c # cs"
    using chunk_content_not_Nil [of "MAX_CHUNK_SIZE (gemini w)" t]
    by (cases "chunk_content (MAX_CHUNK_SIZE (gemini w)) t") auto
  show ?thesis
    by (simp add: determine_meeting_type_def determine_meeting_type_try_def c
        split: prod.split sum.split)
qed

section \<open>Summaries\<close>





lemma summarize_transcript_single:
  "length (chunk_content (MAX_CHUNK_SIZE (gemini w)) t) = 1 \<Longrightarrow>
   summarize_transcript env t w =
     (case generate_with_retry env
             (summary_instruction @ str ''\<newline>\<newline>Transcript:\<newline>'' @
              hd (chunk_content (MAX_CHUNK_SIZE (gemini w)) t)) w of
        (Inl e, w') \<Rightarrow> (Inr None, w')
      | (Inr s, w') \<Rightarrow> (Inr (Some s), w'))"
  by (simp add: summarize_transcript_def summarize_transcript_try_def Let_def
      split: prod.split sum.split)



section \<open>The claims about the text-generation client\<close>

text \<open>
  C9. The rate limiter admits each call by counting it. A call that finds the counter at the
  ceiling of 55 (or above) before 60 seconds have passed since the start of the window sleeps
  for the rest of the window, 60 seconds minus the elapsed time, then sets the counter and the
  start of the window anew and counts the call. Once 60 seconds or more have passed, the
  counter and the start of the window are set anew and the call is counted without a sleep.
  Otherwise the call is counted and nothing else changes.
\<close>

theorem check_rate_limit_admits:
  "(60 \<le> now w - last_request_time (gemini w) \<longrightarrow>
      trace (check_rate_limit w) = trace w \<and> now (check_rate_limit w) = now w \<and>
      requests_in_minute (gemini (check_rate_limit w)) = 1 \<and>
      last_request_time (gemini (check_rate_limit w)) = now w) \<and>
   (now w - last_request_time (gemini w) < 60 \<and> 55 \<le> requests_in_minute (gemini w) \<longrightarrow>
      trace (check_rate_limit w) = trace w @ [Sleep (60 - (now w - last_request_time (gemini w)))] \<and>
      now (check_rate_limit w) = now w + (60 - (now w - last_request_time (gemini w))) \<and>
      requests_in_minute (gemini (check_rate_limit w)) = 1 \<and>
      last_request_time (gemini (check_rate_limit w)) = now (check_rate_limit w)) \<and>
   (now w - last_request_time (gemini w) < 60 \<and> requests_in_minute (gemini w) < 55 \<longrightarrow>
      trace (check_rate_limit w) = trace w \<and> now (check_rate_limit w) = now w \<and>
      requests_in_minute (gemini (check_rate_limit w)) = requests_in_minute (gemini w) + 1 \<and>
      last_request_time (gemini (check_rate_limit w)) = last_request_time (gemini w))"
  by (simp add: check_rate_limit_def Let_def sleep_def)

theorem check_rate_limit_admits_witness:
  "trace (check_rate_limit (start_world 30000 55 70 100)) = [Sleep 30] \<and>
   now (check_rate_limit (start_world 30000 55 70 100)) = 130 \<and>
   requests_in_minute (gemini (check_rate_limit (start_world 30000 55 70 100))) = 1 \<and>
   last_request_time (gemini (check_rate_limit (start_world 30000 55 70 100))) = 130 \<and>
   trace (check_rate_limit (start_world 30000 55 10 100)) = [] \<and>
   requests_in_minute (gemini (check_rate_limit (start_world 30000 55 10 100))) = 1 \<and>
   last_request_time (gemini (check_rate_limit (start_world 30000 55 10 100))) = 100 \<and>
   trace (check_rate_limit (start_world 30000 7 70 100)) = [] \<and>
   requests_in_minute (gemini (check_rate_limit (start_world 30000 7 70 100))) = 8"
  using check_rate_limit_admits [of "start_world 30000 55 70 100"]
    check_rate_limit_admits [of "start_world 30000 55 10 100"]
    check_rate_limit_admits [of "start_world 30000 7 70 100"]
  by (simp add: start_world_def)

text \<open>
  C8. A remote text-generation call is at most three attempts, one text sent per attempt. An
  attempt fails unless the backend answers with a status that is neither 429 nor an error
  status and with a candidate text: no response, an error status, a 429 and a response without
  candidates are all failures. After a failed first or second attempt the caller sleeps the
  backoff delay, 4 seconds both times, and every delay of the policy lies between 4 and 10
  seconds; a 429 sleeps 5 seconds more, before the failure leaves the attempt. After the third
  failed attempt the failure is handed to the caller, wrapped in a \<open>RetryError\<close>.
\<close>

theorem generate_with_retry_bounded:
  "generate_with_retry env p w =
     (case generate_once env p w of
        (Inr t, w1) \<Rightarrow> (Inr t, w1)
      | (Inl e1, w1) \<Rightarrow>
          (case generate_once env p (sleep 4 w1) of
             (Inr t, w2) \<Rightarrow> (Inr t, w2)
           | (Inl e2, w2) \<Rightarrow>
               (case generate_once env p (sleep 4 w2) of
                  (Inr t, w3) \<Rightarrow> (Inr t, w3)
                | (Inl e3, w3) \<Rightarrow> (Inl (RetryError e3), w3)))) \<and>
   wait_exponential 1 4 10 1 = 4 \<and> wait_exponential 1 4 10 2 = 4 \<and>
   (\<forall>n. 4 \<le> wait_exponential 1 4 10 n \<and> wait_exponential 1 4 10 n \<le> 10) \<and>
   (\<exists>es. trace (snd (generate_with_retry env p w)) = trace w @ es \<and>
         1 \<le> length (sent_texts es) \<and> length (sent_texts es) \<le> 3) \<and>
   ((\<exists>t. fst (generate_once env p w) = Inr t) \<longleftrightarrow>
    (\<exists>s c. backend env (calls w) (hd (chunk_content (MAX_CHUNK_SIZE (gemini w)) p)) =
             Reply s (Candidate c) \<and> s \<noteq> 429 \<and> \<not> (400 \<le> s \<and> s < 600))) \<and>
   (\<forall>b. backend env (calls w) (hd (chunk_content (MAX_CHUNK_SIZE (gemini w)) p)) = Reply 429 b \<longrightarrow>
        generate_once env p w =
          (Inl RateLimitExceeded,
           sleep 5 (tick env (Generate (hd (chunk_content (MAX_CHUNK_SIZE (gemini w)) p)) (Reply 429 b))
                      (check_rate_limit w))))"
proof -
  have a: "(\<exists>t. fst (generate_once env p w) = Inr t) \<longleftrightarrow>
    (\<exists>s c. backend env (calls w) (hd (chunk_content (MAX_CHUNK_SIZE (gemini w)) p)) =
             Reply s (Candidate c) \<and> s \<noteq> 429 \<and> \<not> (400 \<le> s \<and> s < 600))"
    unfolding generate_once_eq Let_def
    by (auto split: response.split body.split)
  have b: "\<forall>b. backend env (calls w) (hd (chunk_content (MAX_CHUNK_SIZE (gemini w)) p)) = Reply 429 b \<longrightarrow>
        generate_once env p w =
          (Inl RateLimitExceeded,
           sleep 5 (tick env (Generate (hd (chunk_content (MAX_CHUNK_SIZE (gemini w)) p)) (Reply 429 b))
                      (check_rate_limit w)))"
    unfolding generate_once_eq Let_def by simp
  have c: "wait_exponential 1 4 10 2 = 4" by (simp add: wait_exponential_def)
  show ?thesis
    using generate_with_retry_eq [of env p w] wait_exponential_first c wait_exponential_bounds
      generate_with_retry_attempts [of env p w] a b
    by blast
qed

theorem generate_with_retry_bounded_witness:
  "backend (quiet_env (\<lambda>n. if n = 0 then Reply 429 NotJson else if n = 1 then Reply 200 NoCandidates
                             else Reply 500 NotJson)) 0 (str ''hi'') = Reply 429 NotJson \<and>
   generate_with_retry
     (quiet_env (\<lambda>n. if n = 0 then Reply 429 NotJson else if n = 1 then Reply 200 NoCandidates
                      else Reply 500 NotJson))
     (str ''hi'') (start_world 30000 0 90 100) =
   (Inl (RetryError (HTTPError 500)),
    \<lparr>now = 113, calls = 3,
     trace = [Generate (str ''hi'') (Reply 429 NotJson), Sleep 5, Sleep 4,
              Generate (str ''hi'') (Reply 200 NoCandidates), Sleep 4,
              Generate (str ''hi'') (Reply 500 NotJson)],
     gemini = \<lparr>MAX_CHUNK_SIZE = 30000, requests_in_minute = 3, last_request_time = 90\<rparr>,
     drive = [], processed_titles = {}\<rparr>)"
  using generate_with_retry_bounded
    [of "quiet_env (\<lambda>n. if n = 0 then Reply 429 NotJson else if n = 1 then Reply 200 NoCandidates
                         else Reply 500 NotJson)" "str ''hi''" "start_world 30000 0 90 100"]
  by (simp add: quiet_env_def start_world_def generate_once_def check_rate_limit_def Let_def
      chunk_content_def str_def tick_def sleep_def)

text \<open>
  C10. Every attempt of a call sends the first chunk of the prompt and nothing else. A prompt
  longer than \<open>MAX_CHUNK_SIZE\<close> that has a newline has more than one chunk: it is the text
  sent, a newline, and a remainder that is never sent. Nothing reports the cut: when the
  backend answers the shortened text with a candidate, that answer is the result of the call.
  The prompts of the summaries (of a transcript, of a part, of the parts combined, for the
  chat, for a validation meeting) all have a newline, so each of them is cut when it is too
  long.
\<close>

theorem generate_with_retry_first_chunk_only:
  "(\<exists>es. trace (snd (generate_with_retry env p w)) = trace w @ es \<and>
         (\<forall>e \<in> set es. \<forall>t r. e = Generate t r \<longrightarrow>
            t = hd (chunk_content (MAX_CHUNK_SIZE (gemini w)) p))) \<and>
   (MAX_CHUNK_SIZE (gemini w) < length p \<and> newline \<in> set p \<longrightarrow>
      tl (chunk_content (MAX_CHUNK_SIZE (gemini w)) p) \<noteq> [] \<and>
      p = hd (chunk_content (MAX_CHUNK_SIZE (gemini w)) p) @ newline #
            join_lines (tl (chunk_content (MAX_CHUNK_SIZE (gemini w)) p))) \<and>
   (\<forall>s c. backend env (calls w) (hd (chunk_content (MAX_CHUNK_SIZE (gemini w)) p)) =
             Reply s (Candidate c) \<and> s \<noteq> 429 \<and> \<not> (400 \<le> s \<and> s < 600) \<longrightarrow>
          fst (generate_with_retry env p w) = Inr (strip c)) \<and>
   newline \<in> set (summary_instruction @ str ''\<newline>\<newline>Transcript:\<newline>'' @ chunk) \<and>
   newline \<in> set (part_prompt i n chunk) \<and>
   newline \<in> set (combined_prompt summaries) \<and>
   newline \<in> set (chat_prompt chat_instruction transcript_text meeting_time) \<and>
   newline \<in> set (chat_prompt validation_instruction transcript_text meeting_time)"
proof -
  let ?t = "hd (chunk_content (MAX_CHUNK_SIZE (gemini w)) p)"
  obtain es where es: "trace (snd (generate_with_retry env p w)) = trace w @ es"
      "list_all (sends ?t) es"
    using grows_generate_with_retry [of w p env] by (auto simp: grows_def)
  have "\<forall>e \<in> set es. \<forall>t r. e = Generate t r \<longrightarrow> t = ?t"
    using es(2) by (auto simp: list_all_iff)
  with es(1) have a: "\<exists>es. trace (snd (generate_with_retry env p w)) = trace w @ es \<and>
         (\<forall>e \<in> set es. \<forall>t r. e = Generate t r \<longrightarrow> t = ?t)"
    by blast
  have b: "\<forall>s c. backend env (calls w) ?t = Reply s (Candidate c) \<and> s \<noteq> 429 \<and>
             \<not> (400 \<le> s \<and> s < 600) \<longrightarrow> fst (generate_with_retry env p w) = Inr (strip c)"
    unfolding generate_with_retry_eq [of env p w]
    by (subst generate_once_eq) (simp add: Let_def)
  have c: "MAX_CHUNK_SIZE (gemini w) < length p \<and> newline \<in> set p \<longrightarrow>
      tl (chunk_content (MAX_CHUNK_SIZE (gemini w)) p) \<noteq> [] \<and>
      p = hd (chunk_content (MAX_CHUNK_SIZE (gemini w)) p) @ newline #
            join_lines (tl (chunk_content (MAX_CHUNK_SIZE (gemini w)) p))"
    using chunk_content_long [of "MAX_CHUNK_SIZE (gemini w)" p] by blast
  show ?thesis
    by (intro conjI a b c newline_in_transcript_mark newline_in_part_prompt
        newline_in_combined_prompt newline_in_chat_prompt)
qed

theorem generate_with_retry_first_chunk_only_witness:
  "5 < length (str ''ab\<newline>cdefgh\<newline>i'') \<and> newline \<in> set (str ''ab\<newline>cdefgh\<newline>i'') \<and>
   backend (quiet_env (\<lambda>n. Reply 200 (Candidate (str ''ok'')))) 0 (str ''ab'') =
     Reply 200 (Candidate (str ''ok'')) \<and>
   generate_with_retry (quiet_env (\<lambda>n. Reply 200 (Candidate (str ''ok''))))
     (str ''ab\<newline>cdefgh\<newline>i'') (start_world 5 0 90 100) =
   (Inr (str ''ok''),
    \<lparr>now = 100, calls = 1,
     trace = [Generate (str ''ab'') (Reply 200 (Candidate (str ''ok'')))],
     gemini = \<lparr>MAX_CHUNK_SIZE = 5, requests_in_minute = 1, last_request_time = 90\<rparr>,
     drive = [], processed_titles = {}\<rparr>)"
  using generate_with_retry_first_chunk_only
    [of "quiet_env (\<lambda>n. Reply 200 (Candidate (str ''ok'')))" "str ''ab\<newline>cdefgh\<newline>i''"
        "start_world 5 0 90 100"]
  by (simp add: quiet_env_def start_world_def generate_once_def
      check_rate_limit_def Let_def chunk_content_def str_def tick_def sleep_def newline_def
      strip_def is_space_def generate_with_retry_eq [of _ _ "start_world 5 0 90 100", unfolded start_world_def])

text \<open>
  C7. \<open>determine_meeting_type\<close> never raises and always returns one of the seven labels. It
  returns the answer of the backend when that is one of the labels, and \<open>"Other"\<close> for any
  other answer and for any exception, the failure of all attempts included.
\<close>

theorem determine_meeting_type_total:
  "(\<exists>label \<in> valid_categories. fst (determine_meeting_type env t n w) = Inr label) \<and>
   card valid_categories = 7 \<and>
   determine_meeting_type env t n w =
     (case generate_with_retry env
             (classify_prompt n (hd (chunk_content (MAX_CHUNK_SIZE (gemini w)) t))) w of
        (Inl e, w') \<Rightarrow> (Inr (str ''Other''), w')
      | (Inr result, w') \<Rightarrow>
          (Inr (if result \<in> valid_categories then result else str ''Other''), w')) \<and>
   (\<forall>e w'. determine_meeting_type_try env t n w = (Inl e, w') \<longrightarrow>
      determine_meeting_type env t n w = (Inr (str ''Other''), w'))"
proof -
  have a: "\<exists>label \<in> valid_categories. fst (determine_meeting_type env t n w) = Inr label"
    unfolding determine_meeting_type_eq
    by (auto simp: other_valid split: prod.split sum.split)
  have b: "\<forall>e w'. determine_meeting_type_try env t n w = (Inl e, w') \<longrightarrow>
      determine_meeting_type env t n w = (Inr (str ''Other''), w')"
    by (simp add: determine_meeting_type_def)
  show ?thesis
    by (intro conjI a b card_valid_categories determine_meeting_type_eq)
qed

theorem determine_meeting_type_total_witness:
  "(\<exists>w'. determine_meeting_type_try (quiet_env (\<lambda>n. NoResponse)) (str ''hello'') None
            (start_world 30000 0 90 100) = (Inl (RetryError ConnectionError), w') \<and>
         determine_meeting_type (quiet_env (\<lambda>n. NoResponse)) (str ''hello'') None
            (start_world 30000 0 90 100) = (Inr (str ''Other''), w')) \<and>
   fst (determine_meeting_type (quiet_env (\<lambda>n. Reply 200 (Candidate (str '' Budget review ''))))
          (str ''hello'') None (start_world 30000 0 90 100)) = Inr (str ''Other'') \<and>
   fst (determine_meeting_type (quiet_env (\<lambda>n. Reply 200 (Candidate (str ''Client Meeting\<newline>''))))
          (str ''hello'') None (start_world 30000 0 90 100)) = Inr (str ''Client Meeting'')"
proof -
  let ?w = "start_world 30000 0 90 100"
  let ?p = "classify_prompt None (str ''hello'')"
  have m: "MAX_CHUNK_SIZE (gemini ?w) = 30000" by (simp add: start_world_def)
  have c: "chunk_content 30000 (str ''hello'') = [str ''hello'']"
    by (simp add: chunk_content_def str_def)
  have g1: "fst (generate_with_retry (quiet_env (\<lambda>n. NoResponse)) ?p ?w) =
            Inl (RetryError ConnectionError)"
    by (simp add: generate_with_retry_eq [of _ _ ?w] generate_once_eq Let_def quiet_env_def
        split: prod.split)
  have g2: "fst (generate_with_retry (quiet_env (\<lambda>n. Reply 200 (Candidate (str '' Budget review '')))) ?p ?w) =
            Inr (str ''Budget review'')"
    by (simp add: generate_with_retry_eq [of _ _ ?w] generate_once_eq Let_def quiet_env_def
        strip_def is_space_def str_def)
  have g3: "fst (generate_with_retry (quiet_env (\<lambda>n. Reply 200 (Candidate (str ''Client Meeting\<newline>'')))) ?p ?w) =
            Inr (str ''Client Meeting'')"
    by (simp add: generate_with_retry_eq [of _ _ ?w] generate_once_eq Let_def quiet_env_def
        strip_def is_space_def str_def)
  have t1: "fst (determine_meeting_type_try (quiet_env (\<lambda>n. NoResponse)) (str ''hello'') None ?w) =
            Inl (RetryError ConnectionError)"
    using g1 by (auto simp: determine_meeting_type_try_def m c split: prod.split sum.split)
  have v2: "str ''Budget review'' \<notin> valid_categories"
    by (simp add: valid_categories_def str_def)
  have v3: "str ''Client Meeting'' \<in> valid_categories"
    by (simp add: valid_categories_def)
  let ?e1 = "quiet_env (\<lambda>n. NoResponse)"
  let ?e2 = "quiet_env (\<lambda>n. Reply 200 (Candidate (str '' Budget review '')))"
  let ?e3 = "quiet_env (\<lambda>n. Reply 200 (Candidate (str ''Client Meeting\<newline>'')))"
  obtain w1 where w1: "determine_meeting_type_try ?e1 (str ''hello'') None ?w =
      (Inl (RetryError ConnectionError), w1)"
    using t1 by (cases "determine_meeting_type_try ?e1 (str ''hello'') None ?w") auto
  have a: "determine_meeting_type ?e1 (str ''hello'') None ?w = (Inr (str ''Other''), w1)"
    using determine_meeting_type_total [of ?e1 "str ''hello''" None ?w] w1 by blast
  have b: "fst (determine_meeting_type ?e2 (str ''hello'') None ?w) = Inr (str ''Other'')"
    using determine_meeting_type_total [of ?e2 "str ''hello''" None ?w] g2 v2
    by (cases "generate_with_retry ?e2 ?p ?w") (simp add: m c)
  have d: "fst (determine_meeting_type ?e3 (str ''hello'') None ?w) = Inr (str ''Client Meeting'')"
    using determine_meeting_type_total [of ?e3 "str ''hello''" None ?w] g3 v3
    by (cases "generate_with_retry ?e3 ?p ?w") (simp add: m c)
  show ?thesis using w1 a b d by blast
qed



section \<open>The events of the requests\<close>








section \<open>The events of the marking\<close>





section \<open>The events of the text-generation client\<close>















section \<open>The events of one file\<close>














section \<open>The order of the events of one file\<close>






section \<open>The titles of the run\<close>




















section \<open>Discovery\<close>











section \<open>The ids that discovery returns\<close>







section \<open>What the marking does to the store\<close>











section \<open>What the work on one file does to the store\<close>




lemma evolved_refl: "evolved fs fs"
  by (simp add: evolved_def)

























section \<open>Running the model on examples\<close>

lemma mark_pages_one_page:
  "length remaining \<le> page_size \<Longrightarrow>
   mark_pages env t remaining w =
     (case call env (FilesList (DocsNamed t)) True w of
        (ok, w1) \<Rightarrow> if \<not> ok then (Inl ConnectionError, w1)
                    else (Inr (), mark_files env remaining w1))"
  by (subst mark_pages.simps) (simp add: Let_def split: prod.split)

lemma list_folder_pages_one_page:
  "length remaining \<le> page_size \<Longrightarrow>
   list_folder_pages env folder remaining w =
     (case call env (FilesList (DocsInFolder folder)) True w of
        (ok, w1) \<Rightarrow> if \<not> ok then ([], w1) else unprocessed_files env remaining w1)"
  by (subst list_folder_pages.simps) (simp add: Let_def split: prod.split)

lemma generate_with_retry_answered:
  "backend env (calls w) (hd (chunk_content (MAX_CHUNK_SIZE (gemini w)) p)) = Reply 200 (Candidate c) \<Longrightarrow>
   generate_with_retry env p w =
     (Inr (strip c),
      tick env (Generate (hd (chunk_content (MAX_CHUNK_SIZE (gemini w)) p)) (Reply 200 (Candidate c)))
        (check_rate_limit w))"
  by (subst generate_with_retry_eq, subst generate_once_eq) (simp add: Let_def)

lemma daily_env_fields:
  "fault (daily_env ks) = (\<lambda>n. n \<in> set ks)"
  "backend (daily_env ks) = (\<lambda>n t. Reply 200 (Candidate (str ''Daily Team Meeting'')))"
  "chat_status (daily_env ks) = (\<lambda>n. Some 200)" "latency (daily_env ks) = (\<lambda>n. 0)"
  "fresh_id (daily_env ks) = (\<lambda>n. str ''copy'')" "local_date (daily_env ks) = (\<lambda>t. 0)"
  "date_text (daily_env ks) = (\<lambda>t. str ''2024-01-01'')"
  by (simp_all add: daily_env_def faulty_env_def quiet_env_def)

lemma generate_with_retry_daily:
  "generate_with_retry (daily_env ks) p w =
     (Inr (str ''Daily Team Meeting''),
      tick (daily_env ks)
        (Generate (hd (chunk_content (MAX_CHUNK_SIZE (gemini w)) p))
           (Reply 200 (Candidate (str ''Daily Team Meeting''))))
        (check_rate_limit w))"
proof -
  have "strip (str ''Daily Team Meeting'') = str ''Daily Team Meeting''"
    by (simp add: strip_def is_space_def str_def)
  with generate_with_retry_answered [of "daily_env ks" w p "str ''Daily Team Meeting''"]
  show ?thesis by (simp add: daily_env_fields)
qed

lemmas run_defs =
  process_file_def process_document_def file_document_def notify_def files_get_def
  files_export_def docs_get_def docs_batch_update_def append_summary_def copy_file_def
  verify_folder_access_def mark_all_with_title_as_processed_def call_def tick_def sleep_def
  find_file_def Let_def check_rate_limit_def send_daily_meeting_summary_def
  generate_chat_summary_def set_property_def summary_text_def determine_meeting_type_eq
  generate_with_retry_daily chunk_content_short summarize_transcript_single mark_pages_one_page
  page_size_def daily_env_fields example_world_def example_doc_def example_folder_def
  example_config_def get_new_meet_files_def has_been_processed_def list_folder_pages_one_page
  process_meet_files_def str_eq_iff str_Nil_iff length_str

lemma example_facts:
  "str ''Daily Team Meeting'' \<in> valid_categories"
  "folder_mime \<noteq> document_mime" "document_mime \<noteq> folder_mime"
  "strip (str ''Daily Team Meeting'') = str ''Daily Team Meeting''"
  by (simp_all add: valid_categories_def folder_mime_def document_mime_def str_eq_iff)
     (simp add: strip_def is_space_def str_def)










lemma run_two_marked:
  "map (\<lambda>f. (file_id f, properties f PROCESSED_PROPERTY))
     (drive (process_files (daily_env []) example_config 0 [str ''doc1'', str ''doc2'']
               (example_world store_two {}))) =
   [(str ''doc1'', Some (str ''true'')), (str ''doc2'', Some (str ''true'')),
    (str ''dest'', None), (str ''copy'', Some (str ''true''))]"
  by (simp add: run_defs example_facts store_two_def)








section \<open>The claims about the pipeline\<close>










end
